theory Spec2Isabelle
  imports
    Complex_Main
    "HOL-Library.Multiset"
    "HOL-Library.Char_ord"
    "HOL-Library.List_Lexorder"
    "HOL-Library.Product_Lexorder"
begin

section \<open>Enrichment cascade (scripts/STAGE2_5_ENRICH.py)\<close>

text \<open>
  One row of the extracted ledger \<^verbatim>\<open>sku0_fact_lineitem.csv\<close>, restricted to the columns
  the enrichment reads. Numeric columns are real numbers (no NaN cells); a missing
  \<^verbatim>\<open>customer_id\<close> cell (NaN) is \<open>None\<close>.
\<close>

record lineitem =
  sku :: string
  quantity :: real
  unit_price :: real
  line_total :: real
  region_name :: string
  customer_id :: "string option"

datatype price_source =
  original
  | inferred_from_sku_avg
  | inferred_from_master
  | has_total_no_unit_price
  | missing_no_reference

text \<open>The tracking columns that \<^verbatim>\<open>enrich_prices\<close> adds (lines 52-56).\<close>

record enriched = lineitem +
  price_source :: price_source
  price_inferred :: bool
  original_unit_price :: real
  original_line_total :: real

text \<open>A row of the product master, after \<^verbatim>\<open>load_data\<close> added \<^verbatim>\<open>sku_clean\<close>.\<close>

record product =
  sku_clean :: string
  price :: real

text \<open>
  Lines 52-56: the tracking columns are (re)created unconditionally, whatever the
  incoming frame already carries.
\<close>

definition add_tracking :: "'a lineitem_scheme \<Rightarrow> enriched" where
  "add_tracking r =
     \<lparr>sku = sku r, quantity = quantity r, unit_price = unit_price r,
      line_total = line_total r, region_name = region_name r,
      customer_id = customer_id r,
      price_source = original, price_inferred = False,
      original_unit_price = unit_price r, original_line_total = line_total r\<rparr>"

text \<open>Line 59 (and again lines 99, 119, 123): both price and total are zero.\<close>

definition truly_missing :: "'a lineitem_scheme \<Rightarrow> bool" where
  "truly_missing r \<longleftrightarrow> unit_price r = 0 \<and> line_total r = 0"

text \<open>Line 63.\<close>

definition has_total_but_no_price :: "'a lineitem_scheme \<Rightarrow> bool" where
  "has_total_but_no_price r \<longleftrightarrow> unit_price r = 0 \<and> 0 < line_total r"

text \<open>Lines 72-76: \<^verbatim>\<open>np.where(quantity > 0, line_total / quantity, unit_price)\<close>.\<close>

definition effective_price :: "'a lineitem_scheme \<Rightarrow> real" where
  "effective_price r =
     (if 0 < quantity r then line_total r / quantity r else unit_price r)"

text \<open>
  Lines 78-83: the mean effective price per SKU over rows with a positive effective
  price; a SKU without such a row gets NaN from the left merge, here \<open>None\<close>.
\<close>

definition sku_avg_price :: "'a lineitem_scheme list \<Rightarrow> string \<Rightarrow> real option" where
  "sku_avg_price df s =
     (let xs = map effective_price
                 (filter (\<lambda>r. sku r = s) (filter (\<lambda>r. 0 < effective_price r) df))
      in if xs = [] then None else Some (sum_list xs / real (length xs)))"

text \<open>
  Line 97: \<^verbatim>\<open>products[products['price'] > 0].set_index('sku_clean')['price'].to_dict()\<close>;
  for a repeated key the last row wins.
\<close>

definition master_prices :: "product list \<Rightarrow> string \<Rightarrow> real option" where
  "master_prices products =
     map_of (rev (map (\<lambda>p. (sku_clean p, price p)) (filter (\<lambda>p. 0 < price p) products)))"

text \<open>Lines 86-92, on one row; \<open>tm\<close> is the row's bit of \<^verbatim>\<open>truly_missing_mask\<close>.\<close>

definition infer_from_sku :: "real option \<Rightarrow> bool \<Rightarrow> enriched \<Rightarrow> enriched" where
  "infer_from_sku avg_price tm r =
     (case avg_price of
        None \<Rightarrow> r
      | Some a \<Rightarrow>
          if tm
          then r\<lparr>unit_price := a, line_total := quantity r * a,
                 price_source := inferred_from_sku_avg, price_inferred := True\<rparr>
          else r)"

text \<open>Lines 99-107, on one row (the guard of line 103 only skips an empty update).\<close>

definition infer_from_master_price :: "real option \<Rightarrow> enriched \<Rightarrow> enriched" where
  "infer_from_master_price master r =
     (case master of
        None \<Rightarrow> r
      | Some m \<Rightarrow>
          if truly_missing r
          then r\<lparr>unit_price := m, line_total := quantity r * m,
                 price_source := inferred_from_master, price_inferred := True\<rparr>
          else r)"

text \<open>Line 111; \<open>htnp\<close> is the row's bit of \<^verbatim>\<open>has_total_but_no_price\<close>.\<close>

definition mark_has_total :: "bool \<Rightarrow> enriched \<Rightarrow> enriched" where
  "mark_has_total htnp r = (if htnp then r\<lparr>price_source := has_total_no_unit_price\<rparr> else r)"

text \<open>Lines 114-116.\<close>

definition backfill :: "bool \<Rightarrow> enriched \<Rightarrow> enriched" where
  "backfill htnp r =
     (if htnp \<and> 0 < quantity r
      then r\<lparr>unit_price := line_total r / quantity r, price_inferred := True\<rparr>
      else r)"

text \<open>Line 123.\<close>

definition mark_unfixable :: "enriched \<Rightarrow> enriched" where
  "mark_unfixable r = (if truly_missing r then r\<lparr>price_source := missing_no_reference\<rparr> else r)"

text \<open>
  The column-wise updates of \<^verbatim>\<open>enrich_prices\<close> in source order, seen from one row:
  the two masks are read off the incoming row, the per-SKU average and the master
  price are the row's cells of the merged columns.
\<close>

definition enrich_row :: "real option \<Rightarrow> real option \<Rightarrow> 'a lineitem_scheme \<Rightarrow> enriched" where
  "enrich_row avg_price master r0 =
     mark_unfixable
       (backfill (has_total_but_no_price r0)
         (mark_has_total (has_total_but_no_price r0)
           (infer_from_master_price master
             (infer_from_sku avg_price (truly_missing r0) (add_tracking r0)))))"

definition enrich_prices :: "'a lineitem_scheme list \<Rightarrow> product list \<Rightarrow> enriched list" where
  "enrich_prices df products =
     map (\<lambda>r. enrich_row (sku_avg_price df (sku r)) (master_prices products (sku r)) r) df"

text \<open>The counters of the returned statistics (lines 60 and 119) and the revenue total
  of \<^verbatim>\<open>main\<close> (lines 320, 353).\<close>

definition truly_missing_count :: "'a lineitem_scheme list \<Rightarrow> nat" where
  "truly_missing_count df = length (filter truly_missing df)"

definition final_zero_revenue :: "'a lineitem_scheme list \<Rightarrow> product list \<Rightarrow> nat" where
  "final_zero_revenue df products = length (filter truly_missing (enrich_prices df products))"

definition total_revenue :: "'a lineitem_scheme list \<Rightarrow> real" where
  "total_revenue df = sum_list (map line_total df)"

text \<open>
  \<^verbatim>\<open>add_data_quality_flags\<close>, lines 184-193, on one row. \<^verbatim>\<open>enrich_regions\<close> and
  \<^verbatim>\<open>enrich_customers\<close>, which \<^verbatim>\<open>main\<close> runs in between, only add source columns and
  leave \<^verbatim>\<open>region_name\<close> and \<^verbatim>\<open>customer_id\<close> as they are, so the score reads the
  cells of the row that \<^verbatim>\<open>enrich_prices\<close> returned.
\<close>

definition dq_score :: "'a enriched_scheme \<Rightarrow> int" where
  "dq_score r =
     (let s0 = 100;
          s1 = (if price_inferred r = True then s0 - 10 else s0);
          s2 = (if unit_price r = 0 \<and> line_total r = 0 then s1 - 30 else s1);
          s3 = (if region_name r = ''Unknown'' then s2 - 20 else s2);
          s4 = (if customer_id r = Some [] \<or> customer_id r = None then s3 - 10 else s3)
      in max s4 0)"

text \<open>The \<^verbatim>\<open>dq_score\<close> column that \<^verbatim>\<open>main\<close> obtains for a ledger (lines 340-350).\<close>

definition dq_scores :: "'a lineitem_scheme list \<Rightarrow> product list \<Rightarrow> int list" where
  "dq_scores df products = map dq_score (enrich_prices df products)"


section \<open>Accuracy metric and confidence tier\<close>

text \<open>
  \<^verbatim>\<open>calculate_wmape\<close> of scripts/TRAIN_V4_MODELS.py (lines 48-51; the same body is in
  TRAIN_V3_HYBRID.py and five more scripts).
\<close>

definition calculate_wmape :: "real list \<Rightarrow> real list \<Rightarrow> real" where
  "calculate_wmape actual predicted =
     (if 0 < sum_list actual
      then 100 * sum_list (map (\<lambda>(a, p). \<bar>a - p\<bar>) (zip actual predicted)) / sum_list actual
      else 999)"

text \<open>
  The result of a numpy float division: dividing by zero does not raise, it yields an
  infinity or NaN (the scripts silence the warning).
\<close>

datatype np_float = Finite real | PosInf | NegInf | NaN

definition np_divide :: "real \<Rightarrow> real \<Rightarrow> np_float" where
  "np_divide x y =
     (if y \<noteq> 0 then Finite (x / y)
      else if 0 < x then PosInf else if x < 0 then NegInf else NaN)"

text \<open>\<^verbatim>\<open>calculate_wmape\<close> of scripts/TRAIN_ALL_MODELS.py (lines 40-42).\<close>

definition calculate_wmape_train_all :: "real list \<Rightarrow> real list \<Rightarrow> np_float" where
  "calculate_wmape_train_all actual predicted =
     np_divide (100 * sum_list (map (\<lambda>(a, p). \<bar>a - p\<bar>) (zip actual predicted)))
       (sum_list actual)"

datatype confidence = High | Medium | Low

text \<open>\<^verbatim>\<open>get_confidence\<close>, scripts/TRAIN_V4_MODELS.py lines 53-60.\<close>

definition get_confidence :: "real \<Rightarrow> nat \<Rightarrow> confidence" where
  "get_confidence wmape h1_weeks =
     (if wmape < 40 \<and> 15 \<le> h1_weeks then High
      else if wmape < 60 \<and> 10 \<le> h1_weeks then Medium
      else Low)"


section \<open>Prediction records\<close>

text \<open>
  The dictionaries appended to \<^verbatim>\<open>predictions\<close> (TRAIN_V3_HYBRID.py lines 134-141) and
  to \<^verbatim>\<open>sku_results\<close> (TRAIN_V4_MODELS.py lines 227-236; the display-only
  \<^verbatim>\<open>description\<close> is left out), and the two columns added at lines 245-248.
\<close>

record prediction =
  sku :: int
  category :: string
  year_week :: string
  actual :: real
  predicted :: real
  model_type :: string

record sku_prediction = prediction +
  h1_weeks :: nat

record scored_prediction = sku_prediction +
  wmape :: real
  confidence :: confidence


section \<open>Feature builder (scripts/extract\_sku\_data\_v2.py, lines 548-573)\<close>

text \<open>
  A row of the weekly aggregate (one per SKU and ISO week, key \<^verbatim>\<open>'%Y-W%V'\<close>), with
  the two columns the lag and rolling features are taken from.
\<close>

record weekly_agg =
  sku :: int
  year_week :: string
  weekly_quantity :: real
  avg_unit_price :: real

text \<open>The feature columns of lines 564-573; a NaN cell is \<open>None\<close>.\<close>

record weekly_features = weekly_agg +
  lag1_quantity :: "real option"
  lag1_price :: "real option"
  lag2_quantity :: "real option"
  lag2_price :: "real option"
  lag4_quantity :: "real option"
  lag4_price :: "real option"
  rolling_avg_4w :: "real option"
  price_rolling_avg_4w :: "real option"

text \<open>\<^verbatim>\<open>Series.shift(k)\<close>: the value \<open>k\<close> positions earlier, NaN for the first \<open>k\<close>.\<close>

definition shift :: "nat \<Rightarrow> 'a list \<Rightarrow> 'a option list" where
  "shift k xs = map (\<lambda>j. if k \<le> j then Some (xs ! (j - k)) else None) [0..<length xs]"

definition mean :: "real list \<Rightarrow> real" where
  "mean xs = sum_list xs / real (length xs)"

text \<open>
  \<^verbatim>\<open>Series.rolling(n, min_periods=1).mean()\<close>: at position \<open>j\<close> the mean of the window
  that ends at \<open>j\<close> itself and reaches back at most \<open>n - 1\<close> positions.
\<close>

definition rolling_mean :: "nat \<Rightarrow> real list \<Rightarrow> real option list" where
  "rolling_mean n xs =
     map (\<lambda>j. Some (mean (drop (j + 1 - n) (take (j + 1) xs)))) [0..<length xs]"

text \<open>
  \<^verbatim>\<open>df.groupby(key)[col].transform(f)\<close> and \<^verbatim>\<open>df.groupby(key)[col].shift(k)\<close>: \<open>f\<close> runs
  on the column of each group, in row order, and every row receives the entry at its
  own position within its group.
\<close>

definition groupby_transform ::
  "('r \<Rightarrow> 'k) \<Rightarrow> ('r \<Rightarrow> 'v) \<Rightarrow> ('v list \<Rightarrow> 'w list) \<Rightarrow> 'r list \<Rightarrow> 'w list" where
  "groupby_transform key col f df =
     map (\<lambda>i. f (map col (filter (\<lambda>r. key r = key (df ! i)) df))
               ! length (filter (\<lambda>r. key r = key (df ! i)) (take i df)))
       [0..<length df]"

text \<open>Lines 563-573: sort by SKU and week, then the lag and rolling columns.\<close>

definition build_features :: "weekly_agg list \<Rightarrow> weekly_features list" where
  "build_features weekly =
     (let df = sort_key (\<lambda>r. (sku r, year_week r)) weekly;
          lagq = (\<lambda>k. groupby_transform sku weekly_quantity (shift k) df);
          lagp = (\<lambda>k. groupby_transform sku avg_unit_price (shift k) df);
          avgq = groupby_transform sku weekly_quantity (rolling_mean 4) df;
          avgp = groupby_transform sku avg_unit_price (rolling_mean 4) df
      in map (\<lambda>i. \<lparr>sku = sku (df ! i), year_week = year_week (df ! i),
                      weekly_quantity = weekly_quantity (df ! i),
                      avg_unit_price = avg_unit_price (df ! i),
                      lag1_quantity = lagq 1 ! i, lag1_price = lagp 1 ! i,
                      lag2_quantity = lagq 2 ! i, lag2_price = lagp 2 ! i,
                      lag4_quantity = lagq 4 ! i, lag4_price = lagp 4 ! i,
                      rolling_avg_4w = avgq ! i, price_rolling_avg_4w = avgp ! i\<rparr>)
           [0..<length df])"


section \<open>Hierarchical trainer and predictor\<close>

text \<open>
  A row of the table \<^verbatim>\<open>weekly\<close> that both trainers split into H1 and H2: the feature
  table read from \<^verbatim>\<open>v2_features_weekly.csv\<close> with the columns \<^verbatim>\<open>category\<close>
  (TRAIN_V4_MODELS.py line 132, TRAIN_V3_HYBRID.py line 58) and \<^verbatim>\<open>week_num\<close>
  (lines 68 and 61) in place.
\<close>

record weekly = weekly_features +
  category :: string
  week_num :: int

text \<open>
  A fitted regressor predicts from a row's feature cells. \<^verbatim>\<open>GradientBoostingRegressor\<close>
  is not part of the repository; every definition below takes the fitting procedure
  as the parameter \<open>fit\<close>, with \<open>None\<close> for a fit that raises.
\<close>

type_synonym regressor = "weekly \<Rightarrow> real"

type_synonym trainer = "weekly list \<Rightarrow> regressor option"

datatype error = FitFailed | KeyError

definition H1_END_WEEK :: int where
  "H1_END_WEEK = 26"

text \<open>\<^verbatim>\<open>Series.unique()\<close>: the distinct values in order of first appearance.\<close>

fun unique :: "'a list \<Rightarrow> 'a list" where
  "unique [] = []"
| "unique (x # xs) = x # unique (filter (\<lambda>y. y \<noteq> x) xs)"

text \<open>\<^verbatim>\<open>dropna(subset=...)\<close> on the lag and rolling-average columns: in
  TRAIN_V4_MODELS.py the subset is \<^verbatim>\<open>v4_features[:4]\<close>; in TRAIN_V3_HYBRID.py it is
  \<^verbatim>\<open>feature_cols\<close>, whose two further columns are never null here.\<close>

definition has_core :: "'a weekly_features_scheme \<Rightarrow> bool" where
  "has_core r \<longleftrightarrow>
     lag1_quantity r \<noteq> None \<and> lag2_quantity r \<noteq> None \<and> lag4_quantity r \<noteq> None
     \<and> rolling_avg_4w r \<noteq> None"

definition dropna_core :: "'a weekly_features_scheme list \<Rightarrow> 'a weekly_features_scheme list" where
  "dropna_core df = filter has_core df"

text \<open>\<^verbatim>\<open>np.clip(x, 0, None)\<close> and \<^verbatim>\<open>round(x, 1)\<close> (ties to the even digit).\<close>

definition clip0 :: "real \<Rightarrow> real" where
  "clip0 x = max x 0"

definition round_half_even :: "real \<Rightarrow> int" where
  "round_half_even x =
     (let f = \<lfloor>x\<rfloor>; d = x - of_int f
      in if d < 1 / 2 then f else if 1 / 2 < d then f + 1
         else if even f then f else f + 1)"

definition round1 :: "real \<Rightarrow> real" where
  "round1 x = of_int (round_half_even (x * 10)) / 10"


subsection \<open>scripts/TRAIN\_V4\_MODELS.py, per-SKU part\<close>

text \<open>\<^verbatim>\<open>fillna(0)\<close> on one cell.\<close>

definition fillna0 :: "real option \<Rightarrow> real option" where
  "fillna0 c = (case c of None \<Rightarrow> Some 0 | Some v \<Rightarrow> Some v)"

text \<open>
  \<^verbatim>\<open>add_v4_features\<close>, lines 65 and 100: the sort and the zero fill of every NaN cell.
  The seasonal, price-change and rolling columns it also adds are further inputs of
  the regressor only.
\<close>

definition fillna_row :: "weekly \<Rightarrow> weekly" where
  "fillna_row r =
     r\<lparr>lag1_quantity := fillna0 (lag1_quantity r), lag1_price := fillna0 (lag1_price r),
       lag2_quantity := fillna0 (lag2_quantity r), lag2_price := fillna0 (lag2_price r),
       lag4_quantity := fillna0 (lag4_quantity r), lag4_price := fillna0 (lag4_price r),
       rolling_avg_4w := fillna0 (rolling_avg_4w r),
       price_rolling_avg_4w := fillna0 (price_rolling_avg_4w r)\<rparr>"

definition add_v4_features :: "weekly list \<Rightarrow> weekly list" where
  "add_v4_features df = map fillna_row (sort_key (\<lambda>r. (sku r, year_week r)) df)"

text \<open>Lines 158-159 and 171.\<close>

definition train_all :: "weekly list \<Rightarrow> weekly list" where
  "train_all weekly = filter (\<lambda>r. week_num r \<le> H1_END_WEEK) weekly"

definition test_all :: "weekly list \<Rightarrow> weekly list" where
  "test_all weekly = filter (\<lambda>r. H1_END_WEEK < week_num r) weekly"

definition train_sku :: "weekly list \<Rightarrow> weekly list" where
  "train_sku weekly = filter (\<lambda>r. category r \<noteq> ''Unknown'') (train_all weekly)"

text \<open>Line 175, read with \<^verbatim>\<open>.get(sku, 0)\<close> at line 235.\<close>

definition h1_weeks_per_sku :: "weekly list \<Rightarrow> int \<Rightarrow> nat" where
  "h1_weeks_per_sku weekly s = length (filter (\<lambda>r. sku r = s) (train_all weekly))"

text \<open>One round of the loop of lines 182-196, and the loop.\<close>

definition train_one_sku ::
  "trainer \<Rightarrow> weekly list \<Rightarrow> (int \<rightharpoonup> regressor) \<Rightarrow> int \<Rightarrow> (int \<rightharpoonup> regressor)" where
  "train_one_sku fit trn sku_models s =
     (let sku_train = dropna_core (filter (\<lambda>r. sku r = s) trn)
      in if length sku_train < 4 then sku_models
         else case fit sku_train of
                Some model \<Rightarrow> sku_models(s \<mapsto> model)
              | None \<Rightarrow> sku_models)"

definition train_sku_models :: "trainer \<Rightarrow> weekly list \<Rightarrow> (int \<rightharpoonup> regressor)" where
  "train_sku_models fit trn = foldl (train_one_sku fit trn) Map.empty (unique (map sku trn))"

text \<open>One round of the loop of lines 208-236, and the loop.\<close>

definition predict_one_sku ::
  "(int \<rightharpoonup> regressor) \<Rightarrow> regressor \<Rightarrow> (int \<Rightarrow> nat) \<Rightarrow> weekly list \<Rightarrow> int
     \<Rightarrow> sku_prediction list" where
  "predict_one_sku sku_models global_model h1 tst s =
     (let sku_test = dropna_core (filter (\<lambda>r. sku r = s) tst)
      in if length sku_test = 0 then []
         else let (model, mtype) =
                    (case sku_models s of
                       Some m \<Rightarrow> (m, ''sku'')
                     | None \<Rightarrow> (global_model, ''global''))
              in map (\<lambda>r. \<lparr>prediction.sku = s, prediction.category = category r,
                             prediction.year_week = year_week r,
                             actual = weekly_quantity r,
                             predicted = round1 (clip0 (model r)),
                             model_type = mtype, h1_weeks = h1 s\<rparr>)
                   sku_test)"

definition predict_skus ::
  "(int \<rightharpoonup> regressor) \<Rightarrow> regressor \<Rightarrow> (int \<Rightarrow> nat) \<Rightarrow> weekly list \<Rightarrow> sku_prediction list" where
  "predict_skus sku_models global_model h1 tst =
     concat (map (predict_one_sku sku_models global_model h1 tst) (unique (map sku tst)))"

text \<open>Lines 241-248: the per-SKU metric and the tier, written onto every row.\<close>

definition sku_wmape :: "sku_prediction list \<Rightarrow> int \<Rightarrow> real" where
  "sku_wmape sku_df s =
     calculate_wmape (map actual (filter (\<lambda>p. prediction.sku p = s) sku_df))
       (map predicted (filter (\<lambda>p. prediction.sku p = s) sku_df))"

definition add_confidence :: "sku_prediction list \<Rightarrow> scored_prediction list" where
  "add_confidence sku_df =
     map (\<lambda>p. \<lparr>prediction.sku = prediction.sku p,
                prediction.category = prediction.category p,
                prediction.year_week = prediction.year_week p,
                actual = actual p, predicted = predicted p,
                model_type = model_type p, h1_weeks = h1_weeks p,
                wmape = sku_wmape sku_df (prediction.sku p),
                confidence = get_confidence (sku_wmape sku_df (prediction.sku p)) (h1_weeks p)\<rparr>)
       sku_df"

text \<open>
  The dictionary \<^verbatim>\<open>sku_models\<close> as \<^verbatim>\<open>main\<close> builds it from the loaded table, and the
  per-SKU part of \<^verbatim>\<open>main\<close> (lines 139-248). The pooled fit of line 204 is outside any
  \<^verbatim>\<open>try\<close>; grouping an empty result frame by \<^verbatim>\<open>'sku'\<close> (line 241) raises as well.
\<close>

definition trained_sku_models :: "trainer \<Rightarrow> weekly list \<Rightarrow> (int \<rightharpoonup> regressor)" where
  "trained_sku_models fit weekly0 = train_sku_models fit (train_sku (add_v4_features weekly0))"

definition main_sku :: "trainer \<Rightarrow> weekly list \<Rightarrow> error + scored_prediction list" where
  "main_sku fit weekly0 =
     (let weekly = add_v4_features weekly0;
          sku_models = train_sku_models fit (train_sku weekly)
      in case fit (dropna_core (train_sku weekly)) of
           None \<Rightarrow> Inl FitFailed
         | Some global_model \<Rightarrow>
             let sku_results =
                   predict_skus sku_models global_model (h1_weeks_per_sku weekly) (test_all weekly)
             in if sku_results = [] then Inl KeyError else Inr (add_confidence sku_results))"


subsection \<open>scripts/TRAIN\_V3\_HYBRID.py\<close>

text \<open>
  The loop of lines 92-109 over the categories of the whole table: a sparse category
  is entered with \<^verbatim>\<open>None\<close>; the fit is outside any \<^verbatim>\<open>try\<close>.
\<close>

fun train_category_models ::
  "trainer \<Rightarrow> weekly list \<Rightarrow> string list \<Rightarrow> (string \<rightharpoonup> regressor option)
     \<Rightarrow> error + (string \<rightharpoonup> regressor option)" where
  "train_category_models fit trn [] category_models = Inr category_models"
| "train_category_models fit trn (cat # cats) category_models =
     (let cat_train = dropna_core (filter (\<lambda>r. category r = cat) trn)
      in if length cat_train < 50
         then train_category_models fit trn cats (category_models(cat \<mapsto> None))
         else case fit cat_train of
                None \<Rightarrow> Inl FitFailed
              | Some model \<Rightarrow>
                  train_category_models fit trn cats (category_models(cat \<mapsto> Some model)))"

text \<open>One round of the loop of lines 115-141, and the loop.\<close>

definition predict_one_category ::
  "(string \<rightharpoonup> regressor option) \<Rightarrow> regressor \<Rightarrow> weekly list \<Rightarrow> string \<Rightarrow> prediction list" where
  "predict_one_category category_models global_model tst cat =
     (let cat_test = dropna_core (filter (\<lambda>r. category r = cat) tst)
      in if length cat_test = 0 then []
         else let (model, mtype) =
                    (case category_models cat of
                       Some (Some m) \<Rightarrow> (m, ''category'')
                     | _ \<Rightarrow> (global_model, ''global''))
              in map (\<lambda>r. \<lparr>prediction.sku = sku r, prediction.category = cat,
                             prediction.year_week = year_week r,
                             actual = weekly_quantity r,
                             predicted = clip0 (model r),
                             model_type = mtype\<rparr>)
                   cat_test)"

definition predict_categories ::
  "(string \<rightharpoonup> regressor option) \<Rightarrow> regressor \<Rightarrow> weekly list \<Rightarrow> prediction list" where
  "predict_categories category_models global_model tst =
     concat (map (predict_one_category category_models global_model tst)
       (unique (map category tst)))"

text \<open>
  \<^verbatim>\<open>main\<close>, lines 71-143 and 150, returning the frame it writes out; the overall metric
  of line 150 indexes an empty frame by \<^verbatim>\<open>'actual'\<close> when nothing was predicted.
\<close>

definition main_hybrid :: "trainer \<Rightarrow> weekly list \<Rightarrow> error + prediction list" where
  "main_hybrid fit weekly =
     (let trn = filter (\<lambda>r. week_num r \<le> 26) weekly;
          tst = filter (\<lambda>r. 26 < week_num r) weekly
      in case fit (dropna_core trn) of
           None \<Rightarrow> Inl FitFailed
         | Some global_model \<Rightarrow>
             (case train_category_models fit trn (unique (map category weekly)) Map.empty of
                Inl e \<Rightarrow> Inl e
              | Inr category_models \<Rightarrow>
                  let predictions = predict_categories category_models global_model tst
                  in if predictions = [] then Inl KeyError else Inr predictions))"


section \<open>Concrete ledgers, tables and fits used in the examples\<close>

text \<open>Scenario C of the specification: a total without a unit price.\<close>

definition scenario_C :: lineitem where
  "scenario_C =
     \<lparr>lineitem.sku = ''A'', quantity = 10, unit_price = 0, line_total = 500,
      region_name = ''Gauteng'', customer_id = Some ''C1''\<rparr>"

text \<open>Scenario D: a row with neither price nor total, alone for its SKU.\<close>

definition scenario_D :: lineitem where
  "scenario_D =
     \<lparr>lineitem.sku = ''B'', quantity = 5, unit_price = 0, line_total = 0,
      region_name = ''Gauteng'', customer_id = Some ''C2''\<rparr>"

text \<open>A priced row of SKU A, a row of SKU A with nothing, and scenario D.\<close>

definition ledger_AB :: "lineitem list" where
  "ledger_AB =
     [\<lparr>lineitem.sku = ''A'', quantity = 1, unit_price = 10, line_total = 10,
        region_name = ''Gauteng'', customer_id = Some ''C1''\<rparr>,
      \<lparr>lineitem.sku = ''A'', quantity = 2, unit_price = 0, line_total = 0,
        region_name = ''Gauteng'', customer_id = Some ''C2''\<rparr>,
      scenario_D]"


text \<open>A fit that raises on an empty training frame and otherwise predicts 8 everywhere.\<close>

definition fit_const :: trainer where
  "fit_const rows = (if rows = [] then None else Some (\<lambda>r. 8))"

text \<open>A row of \<^verbatim>\<open>weekly\<close> from its key, category, target and the four leading features.\<close>

definition weekly_row ::
  "int \<Rightarrow> string \<Rightarrow> int \<Rightarrow> string \<Rightarrow> real \<Rightarrow> real option \<Rightarrow> real option \<Rightarrow> real option
     \<Rightarrow> real option \<Rightarrow> weekly" where
  "weekly_row s yw wn cat q l1 l2 l4 ra =
     \<lparr>sku = s, year_week = yw, weekly_quantity = q, avg_unit_price = 5,
      lag1_quantity = l1, lag1_price = Some 5, lag2_quantity = l2, lag2_price = Some 5,
      lag4_quantity = l4, lag4_price = Some 5, rolling_avg_4w = ra,
      price_rolling_avg_4w = Some 5, category = cat, week_num = wn\<rparr>"

text \<open>
  SKU 1 has four training weeks and no test week; SKU 2 has three training weeks and
  one test week (scenario B); SKU 3, of unknown category, appears in the test half only.
\<close>

definition weekly_ex :: "weekly list" where
  "weekly_ex =
     [weekly_row 1 ''W23'' 23 ''Tools'' 10 None None None (Some 10),
      weekly_row 1 ''W24'' 24 ''Tools'' 12 (Some 10) None None (Some 11),
      weekly_row 1 ''W25'' 25 ''Tools'' 14 (Some 12) (Some 10) None (Some 12),
      weekly_row 1 ''W26'' 26 ''Tools'' 12 (Some 14) (Some 12) None (Some 12),
      weekly_row 2 ''W24'' 24 ''Tools'' 10 None None None (Some 10),
      weekly_row 2 ''W25'' 25 ''Tools'' 10 (Some 10) None None (Some 10),
      weekly_row 2 ''W26'' 26 ''Tools'' 10 (Some 10) (Some 10) None (Some 10),
      weekly_row 2 ''W27'' 27 ''Tools'' 10 (Some 10) (Some 10) None (Some 10),
      weekly_row 3 ''W27'' 27 ''Unknown'' 5 None None None (Some 5)]"

text \<open>
  One complete training row, one complete test row, and a test row of a SKU in its
  first week, whose lag cells are null.
\<close>

definition weekly_hybrid_ex :: "weekly list" where
  "weekly_hybrid_ex =
     [weekly_row 1 ''W26'' 26 ''Tools'' 10 (Some 10) (Some 10) (Some 10) (Some 10),
      weekly_row 1 ''W27'' 27 ''Tools'' 12 (Some 10) (Some 10) (Some 10) (Some 10),
      weekly_row 2 ''W27'' 27 ''Tools'' 7 None None None (Some 7)]"

text \<open>Two weeks of one SKU, and the same with another quantity in the second week.\<close>

definition agg_ex :: "real \<Rightarrow> weekly_agg list" where
  "agg_ex q =
     [\<lparr>sku = 1, year_week = ''2025-W01'', weekly_quantity = 10, avg_unit_price = 5\<rparr>,
      \<lparr>sku = 1, year_week = ''2025-W02'', weekly_quantity = q, avg_unit_price = 5\<rparr>]"

section \<open>Properties of the enrichment cascade\<close>

lemmas enrich_steps =
  enrich_row_def mark_unfixable_def backfill_def mark_has_total_def
  infer_from_master_price_def infer_from_sku_def add_tracking_def
  truly_missing_def has_total_but_no_price_def

lemmas enrich_eval =
  enrich_prices_def sku_avg_price_def effective_price_def master_prices_def enrich_steps

subsection \<open>The ways a row leaves the cascade\<close>

lemma enrich_row_inferred_sku:
  "truly_missing r \<Longrightarrow> 0 < a \<Longrightarrow>
   enrich_row (Some a) m r =
     (add_tracking r)\<lparr>unit_price := a, line_total := quantity r * a,
        price_source := inferred_from_sku_avg, price_inferred := True\<rparr>"
  by (cases m) (simp_all add: enrich_steps)

lemma enrich_row_inferred_master:
  "truly_missing r \<Longrightarrow> 0 < y \<Longrightarrow>
   enrich_row None (Some y) r =
     (add_tracking r)\<lparr>unit_price := y, line_total := quantity r * y,
        price_source := inferred_from_master, price_inferred := True\<rparr>"
  by (simp add: enrich_steps)

lemma enrich_row_unfixable:
  "truly_missing r \<Longrightarrow>
   enrich_row None None r = (add_tracking r)\<lparr>price_source := missing_no_reference\<rparr>"
  by (simp add: enrich_steps)

lemma enrich_row_backfilled:
  "has_total_but_no_price r \<Longrightarrow> 0 < quantity r \<Longrightarrow>
   enrich_row a m r =
     (add_tracking r)\<lparr>price_source := has_total_no_unit_price,
        unit_price := line_total r / quantity r, price_inferred := True\<rparr>"
  by (cases a; cases m) (simp_all add: enrich_steps)

lemma enrich_row_total_only:
  "has_total_but_no_price r \<Longrightarrow> \<not> 0 < quantity r \<Longrightarrow>
   enrich_row a m r = (add_tracking r)\<lparr>price_source := has_total_no_unit_price\<rparr>"
  by (cases a; cases m) (simp_all add: enrich_steps)

lemma enrich_row_untouched:
  "\<not> truly_missing r \<Longrightarrow> \<not> has_total_but_no_price r \<Longrightarrow> enrich_row a m r = add_tracking r"
  by (cases a; cases m) (auto simp: enrich_steps)

lemma add_tracking_fields [simp]:
  "lineitem.sku (add_tracking r) = lineitem.sku r"
  "quantity (add_tracking r) = quantity r"
  "unit_price (add_tracking r) = unit_price r"
  "line_total (add_tracking r) = line_total r"
  "region_name (add_tracking r) = region_name r"
  "customer_id (add_tracking r) = customer_id r"
  "price_source (add_tracking r) = original"
  "price_inferred (add_tracking r) = False"
  by (simp_all add: add_tracking_def)

lemma enrich_row_sku [simp]: "lineitem.sku (enrich_row a m r) = lineitem.sku r"
  by (simp add: enrich_steps split: option.splits)

lemma enrich_row_quantity [simp]: "quantity (enrich_row a m r) = quantity r"
  by (simp add: enrich_steps split: option.splits)

lemma enrich_row_region_name [simp]: "region_name (enrich_row a m r) = region_name r"
  by (simp add: enrich_steps split: option.splits)

lemma enrich_row_customer_id [simp]: "customer_id (enrich_row a m r) = customer_id r"
  by (simp add: enrich_steps split: option.splits)

subsection \<open>Inferred prices are positive\<close>

lemma sum_list_pos: "xs \<noteq> [] \<Longrightarrow> (\<forall>x\<in>set xs. 0 < x) \<Longrightarrow> 0 < sum_list (xs :: real list)"
  by (induction xs) (auto simp: add_pos_nonneg sum_list_nonneg less_imp_le)

lemma sku_avg_price_pos: "sku_avg_price df s = Some a \<Longrightarrow> 0 < a"
  by (auto simp: sku_avg_price_def Let_def split: if_splits intro!: divide_pos_pos sum_list_pos)

lemma master_prices_pos: "master_prices ps s = Some m \<Longrightarrow> 0 < m"
  by (auto simp: master_prices_def dest!: map_of_SomeD)

lemma sku_avg_price_None_iff:
  "sku_avg_price df s = None \<longleftrightarrow>
     (\<forall>r\<in>set df. lineitem.sku r = s \<longrightarrow> \<not> 0 < effective_price r)"
  by (auto simp: sku_avg_price_def Let_def filter_empty_conv)

subsection \<open>Revenue is kept and never lowered\<close>

lemma enrich_row_keeps_positive_total:
  "0 < line_total r \<Longrightarrow> line_total (enrich_row a m r) = line_total r"
  by (simp add: enrich_steps split: option.splits)

lemma enrich_row_scenario_C:
  "quantity r = 10 \<Longrightarrow> unit_price r = 0 \<Longrightarrow> line_total r = 500 \<Longrightarrow>
   unit_price (enrich_row a m r) = 50
   \<and> price_source (enrich_row a m r) = has_total_no_unit_price
   \<and> line_total (enrich_row a m r) = 500"
  by (simp add: enrich_steps split: option.splits)

text \<open>
  Claim C5. A row whose \<^verbatim>\<open>line_total\<close> is positive before the cascade has the same
  \<^verbatim>\<open>line_total\<close> after it, whatever the rest of the ledger and the product master
  hold; and a row with quantity 10, unit price 0 and total 500 leaves with unit
  price 50, source \<^verbatim>\<open>has_total_no_unit_price\<close> and total 500.
\<close>

theorem enrich_prices_keeps_positive_revenue:
  assumes "i < length df"
  shows "(0 < line_total (df ! i) \<longrightarrow>
            line_total (enrich_prices df products ! i) = line_total (df ! i))
       \<and> (quantity (df ! i) = 10 \<and> unit_price (df ! i) = 0 \<and> line_total (df ! i) = 500 \<longrightarrow>
            unit_price (enrich_prices df products ! i) = 50
          \<and> price_source (enrich_prices df products ! i) = has_total_no_unit_price
          \<and> line_total (enrich_prices df products ! i) = 500)"
  using assms
  by (simp add: enrich_prices_def enrich_row_keeps_positive_total enrich_row_scenario_C)

theorem enrich_prices_keeps_positive_revenue_witness:
  "0 < length [scenario_C]
   \<and> 0 < line_total ([scenario_C] ! 0)
   \<and> quantity ([scenario_C] ! 0) = 10 \<and> unit_price ([scenario_C] ! 0) = 0
   \<and> line_total ([scenario_C] ! 0) = 500
   \<and> unit_price (enrich_prices [scenario_C] [] ! 0) = 50
   \<and> price_source (enrich_prices [scenario_C] [] ! 0) = has_total_no_unit_price
   \<and> line_total (enrich_prices [scenario_C] [] ! 0) = 500"
  using enrich_prices_keeps_positive_revenue [of 0 "[scenario_C]" "[]"]
  by (simp add: scenario_C_def)

lemma enrich_row_total_mono:
  assumes "0 \<le> quantity r" "\<And>a. avg = Some a \<Longrightarrow> 0 < a" "\<And>m. master = Some m \<Longrightarrow> 0 < m"
  shows "line_total r \<le> line_total (enrich_row avg master r)"
  using assms by (auto simp: enrich_steps split: option.splits)

lemma enrich_row_unresolved:
  assumes "\<And>a. avg = Some a \<Longrightarrow> 0 < a" "\<And>m. master = Some m \<Longrightarrow> 0 < m"
  shows "truly_missing (enrich_row avg master r) \<Longrightarrow> truly_missing r"
  using assms by (auto simp: enrich_steps split: option.splits if_splits)

lemma length_filter_map_le:
  "(\<And>x. x \<in> set xs \<Longrightarrow> P (f x) \<Longrightarrow> Q x) \<Longrightarrow>
   length (filter P (map f xs)) \<le> length (filter Q xs)"
  by (induction xs) auto

lemma enrich_prices_row_total_mono:
  "0 \<le> quantity r \<Longrightarrow>
   line_total r
     \<le> line_total (enrich_row (sku_avg_price df (lineitem.sku r))
                      (master_prices ps (lineitem.sku r)) r)"
  by (rule enrich_row_total_mono) (auto dest: sku_avg_price_pos master_prices_pos)

lemma enrich_prices_row_unresolved:
  "truly_missing (enrich_row (sku_avg_price df (lineitem.sku r))
                    (master_prices ps (lineitem.sku r)) r)
   \<Longrightarrow> truly_missing r"
  by (rule enrich_row_unresolved) (auto dest: sku_avg_price_pos master_prices_pos)

text \<open>
  Claim C6. On a ledger whose quantities are all non-negative the cascade does not
  lower the summed \<^verbatim>\<open>line_total\<close>, and the rows it leaves with price and total both
  zero are at most as many as the rows that had both zero before.
\<close>

theorem enrich_prices_monotone:
  assumes "\<forall>r\<in>set df. 0 \<le> quantity r"
  shows "total_revenue df \<le> total_revenue (enrich_prices df products)
       \<and> final_zero_revenue df products \<le> truly_missing_count df"
proof
  show "total_revenue df \<le> total_revenue (enrich_prices df products)"
    unfolding total_revenue_def enrich_prices_def map_map
    by (rule sum_list_mono) (use assms in \<open>simp add: enrich_prices_row_total_mono\<close>)
  show "final_zero_revenue df products \<le> truly_missing_count df"
    unfolding final_zero_revenue_def truly_missing_count_def enrich_prices_def
    by (rule length_filter_map_le) (rule enrich_prices_row_unresolved)
qed

theorem enrich_prices_monotone_witness:
  "list_all (\<lambda>r. 0 \<le> quantity r) ledger_AB
   \<and> total_revenue ledger_AB = 10 \<and> total_revenue (enrich_prices ledger_AB []) = 30
   \<and> truly_missing_count ledger_AB = 2 \<and> final_zero_revenue ledger_AB [] = 1
   \<and> total_revenue ledger_AB \<le> total_revenue (enrich_prices ledger_AB [])
   \<and> final_zero_revenue ledger_AB [] \<le> truly_missing_count ledger_AB"
proof -
  have q: "\<forall>r\<in>set ledger_AB. 0 \<le> quantity r"
    by (simp add: ledger_AB_def scenario_D_def)
  have v: "total_revenue ledger_AB = 10 \<and> total_revenue (enrich_prices ledger_AB []) = 30
     \<and> truly_missing_count ledger_AB = 2 \<and> final_zero_revenue ledger_AB [] = 1"
    by (simp add: ledger_AB_def scenario_D_def enrich_eval total_revenue_def
        truly_missing_count_def final_zero_revenue_def)
  from q v enrich_prices_monotone [OF q, of "[]"] show ?thesis
    by (simp add: list_all_iff)
qed

subsection \<open>A second pass\<close>

lemma effective_price_enrich_row_None:
  "effective_price (enrich_row None None r) = effective_price r"
proof (cases "truly_missing r")
  case True
  then show ?thesis by (simp add: enrich_row_unfixable effective_price_def)
next
  case False
  show ?thesis
  proof (cases "has_total_but_no_price r")
    case True
    then show ?thesis
      by (cases "0 < quantity r")
         (simp_all add: enrich_row_backfilled enrich_row_total_only effective_price_def)
  next
    case no_total: False
    with False show ?thesis by (simp add: enrich_row_untouched effective_price_def)
  qed
qed

lemma sku_avg_price_enrich_None:
  assumes "sku_avg_price df s = None" "master_prices ps s = None"
  shows "sku_avg_price (enrich_prices df ps) s = None"
proof -
  have "\<not> 0 < effective_price
           (enrich_row (sku_avg_price df (lineitem.sku r)) (master_prices ps (lineitem.sku r)) r)"
    if "r \<in> set df" "lineitem.sku r = s" for r
  proof -
    from assms(1) that have "\<not> 0 < effective_price r"
      by (simp add: sku_avg_price_None_iff)
    with assms that show ?thesis
      by (simp add: effective_price_enrich_row_None)
  qed
  then show ?thesis
    by (simp add: sku_avg_price_None_iff enrich_prices_def)
qed

lemma enrich_row_twice:
  assumes pos: "\<And>x. a = Some x \<Longrightarrow> 0 < x" "\<And>y. m = Some y \<Longrightarrow> 0 < y"
    and a2: "a = None \<Longrightarrow> m = None \<Longrightarrow> a2 = None"
  shows "unit_price (enrich_row a2 m (enrich_row a m r)) = unit_price (enrich_row a m r)
       \<and> line_total (enrich_row a2 m (enrich_row a m r)) = line_total (enrich_row a m r)
       \<and> price_source (enrich_row a2 m (enrich_row a m r)) =
           (if price_inferred (enrich_row a m r) then original
            else price_source (enrich_row a m r))"
proof -
  define e where "e = enrich_row a m r"
  have settled: "enrich_row a2 m e = add_tracking e"
    if "unit_price e \<noteq> 0 \<or> line_total e < 0"
    using that by (intro enrich_row_untouched) (auto simp: truly_missing_def has_total_but_no_price_def)
  have "unit_price (enrich_row a2 m e) = unit_price e
       \<and> line_total (enrich_row a2 m e) = line_total e
       \<and> price_source (enrich_row a2 m e) = (if price_inferred e then original else price_source e)"
  proof (cases "truly_missing r")
    case tm: True
    show ?thesis
    proof (cases a)
      case (Some x)
      with pos(1) have "0 < x" by simp
      with tm Some have e: "e = (add_tracking r)\<lparr>unit_price := x, line_total := quantity r * x,
          price_source := inferred_from_sku_avg, price_inferred := True\<rparr>"
        by (simp add: e_def enrich_row_inferred_sku)
      with \<open>0 < x\<close> have "enrich_row a2 m e = add_tracking e" by (intro settled) simp
      then show ?thesis by (simp add: e)
    next
      case None
      show ?thesis
      proof (cases m)
        case (Some y)
        with pos(2) have "0 < y" by simp
        with tm None Some have e: "e = (add_tracking r)\<lparr>unit_price := y, line_total := quantity r * y,
            price_source := inferred_from_master, price_inferred := True\<rparr>"
          by (simp add: e_def enrich_row_inferred_master)
        with \<open>0 < y\<close> have "enrich_row a2 m e = add_tracking e" by (intro settled) simp
        then show ?thesis by (simp add: e)
      next
        case mNone: None
        with tm None have e: "e = (add_tracking r)\<lparr>price_source := missing_no_reference\<rparr>"
          by (simp add: e_def enrich_row_unfixable)
        with tm have tme: "truly_missing e" by (simp add: truly_missing_def)
        from None mNone a2 have "a2 = None" by simp
        with tme mNone
        have "enrich_row a2 m e = (add_tracking e)\<lparr>price_source := missing_no_reference\<rparr>"
          by (simp add: enrich_row_unfixable)
        then show ?thesis by (simp add: e)
      qed
    qed
  next
    case ntm: False
    show ?thesis
    proof (cases "has_total_but_no_price r")
      case ht: True
      show ?thesis
      proof (cases "0 < quantity r")
        case True
        with ht have e: "e = (add_tracking r)\<lparr>price_source := has_total_no_unit_price,
            unit_price := line_total r / quantity r, price_inferred := True\<rparr>"
          by (simp add: e_def enrich_row_backfilled)
        from ht True have "line_total r \<noteq> 0" "quantity r \<noteq> 0"
          by (simp_all add: has_total_but_no_price_def)
        with e have "enrich_row a2 m e = add_tracking e" by (intro settled) simp
        then show ?thesis by (simp add: e)
      next
        case False
        with ht have e: "e = (add_tracking r)\<lparr>price_source := has_total_no_unit_price\<rparr>"
          by (simp add: e_def enrich_row_total_only)
        with ht False have "has_total_but_no_price e" "\<not> 0 < quantity e"
          by (simp_all add: has_total_but_no_price_def)
        then have "enrich_row a2 m e = (add_tracking e)\<lparr>price_source := has_total_no_unit_price\<rparr>"
          by (rule enrich_row_total_only)
        then show ?thesis by (simp add: e)
      qed
    next
      case nht: False
      with ntm have e: "e = add_tracking r" by (simp add: e_def enrich_row_untouched)
      with ntm nht have "\<not> truly_missing e" "\<not> has_total_but_no_price e"
        by (simp_all add: truly_missing_def has_total_but_no_price_def)
      then have "enrich_row a2 m e = add_tracking e" by (rule enrich_row_untouched)
      then show ?thesis by (simp add: e)
    qed
  qed
  then show ?thesis by (simp add: e_def)
qed

text \<open>
  Claim C4, as the code has it. A second pass over the output of the first leaves
  \<^verbatim>\<open>unit_price\<close> and \<^verbatim>\<open>line_total\<close> of every row as they are, so no row is inferred
  again. The tag \<^verbatim>\<open>price_source\<close> is computed afresh from the values the pass finds: a
  row whose price the first pass inferred or back-filled is tagged \<^verbatim>\<open>original\<close> by the
  second, every other row keeps its tag.
\<close>

theorem enrich_prices_second_pass:
  "map unit_price (enrich_prices (enrich_prices df products) products)
     = map unit_price (enrich_prices df products)
   \<and> map line_total (enrich_prices (enrich_prices df products) products)
     = map line_total (enrich_prices df products)
   \<and> map price_source (enrich_prices (enrich_prices df products) products)
     = map (\<lambda>r. if price_inferred r then original else price_source r)
         (enrich_prices df products)"
proof -
  let ?E = "\<lambda>r. enrich_row (sku_avg_price df (lineitem.sku r))
                   (master_prices products (lineitem.sku r)) r"
  have none: "sku_avg_price (map ?E df) s = None"
    if "sku_avg_price df s = None" "master_prices products s = None" for s
    using sku_avg_price_enrich_None[OF that] by (simp add: enrich_prices_def)
  have row:
    "unit_price (enrich_row (sku_avg_price (map ?E df) (lineitem.sku r))
                   (master_prices products (lineitem.sku r)) (?E r))
       = unit_price (?E r)
     \<and> line_total (enrich_row (sku_avg_price (map ?E df) (lineitem.sku r))
                   (master_prices products (lineitem.sku r)) (?E r))
       = line_total (?E r)
     \<and> price_source (enrich_row (sku_avg_price (map ?E df) (lineitem.sku r))
                   (master_prices products (lineitem.sku r)) (?E r))
       = (if price_inferred (?E r) then original else price_source (?E r))"
    for r
    by (rule enrich_row_twice) (auto dest: sku_avg_price_pos master_prices_pos intro: none)
  show ?thesis
    by (simp add: enrich_prices_def row)
qed

theorem enrich_prices_second_pass_witness:
  "map unit_price (enrich_prices (enrich_prices ledger_AB []) []) = [10, 10, 0]
   \<and> map line_total (enrich_prices (enrich_prices ledger_AB []) []) = [10, 20, 0]
   \<and> map price_source (enrich_prices (enrich_prices ledger_AB []) [])
       = [original, original, missing_no_reference]"
proof -
  have "map unit_price (enrich_prices ledger_AB []) = [10, 10, 0]
      \<and> map line_total (enrich_prices ledger_AB []) = [10, 20, 0]
      \<and> map (\<lambda>r. if price_inferred r then original else price_source r)
           (enrich_prices ledger_AB []) = [original, original, missing_no_reference]"
    by (simp add: ledger_AB_def scenario_D_def enrich_eval)
  with enrich_prices_second_pass [of ledger_AB "[]"] show ?thesis by simp
qed

text \<open>
  The claim as the specification states it fails on the tags: the row of scenario C
  is tagged \<^verbatim>\<open>has_total_no_unit_price\<close> by the first pass and \<^verbatim>\<open>original\<close> by the
  second.
\<close>

theorem enrich_prices_retags_counterexample:
  "enrich_prices (enrich_prices [scenario_C] []) [] \<noteq> enrich_prices [scenario_C] []
   \<and> map price_source (enrich_prices [scenario_C] []) = [has_total_no_unit_price]
   \<and> map price_source (enrich_prices (enrich_prices [scenario_C] []) []) = [original]"
  by (simp add: scenario_C_def enrich_eval)

subsection \<open>The quality score\<close>

lemma enrich_row_price_inferred:
  assumes pos: "\<And>x. a = Some x \<Longrightarrow> 0 < x" "\<And>y. m = Some y \<Longrightarrow> 0 < y"
  shows "price_inferred (enrich_row a m r) \<longleftrightarrow>
           price_source (enrich_row a m r) = inferred_from_sku_avg
         \<or> price_source (enrich_row a m r) = inferred_from_master
         \<or> (price_source (enrich_row a m r) = has_total_no_unit_price \<and> 0 < quantity r)"
proof (cases "truly_missing r")
  case tm: True
  show ?thesis
  proof (cases a)
    case (Some x)
    with pos(1) tm show ?thesis by (simp add: enrich_row_inferred_sku)
  next
    case None
    with pos(2) tm show ?thesis
      by (cases m) (simp_all add: enrich_row_inferred_master enrich_row_unfixable)
  qed
next
  case ntm: False
  show ?thesis
  proof (cases "has_total_but_no_price r")
    case True
    then show ?thesis
      by (cases "0 < quantity r") (simp_all add: enrich_row_backfilled enrich_row_total_only)
  next
    case False
    with ntm show ?thesis by (simp add: enrich_row_untouched)
  qed
qed

lemma dq_score_eq:
  "dq_score r =
     100 - (if price_inferred r then 10 else 0)
         - (if unit_price r = 0 \<and> line_total r = 0 then 30 else 0)
         - (if region_name r = ''Unknown'' then 20 else 0)
         - (if customer_id r = None \<or> customer_id r = Some [] then 10 else 0)"
  by (simp add: dq_score_def Let_def)

lemma sku_avg_price_alone:
  assumes "i < length df" "truly_missing (df ! i)"
    and "\<forall>j<length df. j \<noteq> i \<longrightarrow> lineitem.sku (df ! j) \<noteq> lineitem.sku (df ! i)"
  shows "sku_avg_price df (lineitem.sku (df ! i)) = None"
proof -
  have "\<not> 0 < effective_price r" if "r \<in> set df" "lineitem.sku r = lineitem.sku (df ! i)" for r
  proof -
    from that(1) obtain j where j: "j < length df" "r = df ! j"
      by (auto simp: in_set_conv_nth)
    with that(2) assms(3) have "j = i" by auto
    with j assms(2) show ?thesis by (simp add: effective_price_def truly_missing_def)
  qed
  then show ?thesis by (simp add: sku_avg_price_None_iff)
qed

text \<open>
  Claim C9, as the code has it. The score of a row is 100, less 10 when the flag
  \<^verbatim>\<open>price_inferred\<close> is set, which is the case for a price inferred from the SKU
  average or from the product master and also for a unit price back-filled from an
  existing total (source \<^verbatim>\<open>has_total_no_unit_price\<close> and positive quantity); less 30
  when price and total are both still zero; less 20 for region \<^verbatim>\<open>Unknown\<close>; less 10
  for a missing customer. It lies between 0 and 100. A row with quantity 5 and
  neither price nor total, alone for its SKU and without a master price, keeps both
  at zero, is tagged \<^verbatim>\<open>missing_no_reference\<close>, and loses exactly 30 for it.
\<close>

theorem dq_score_of_enriched_row:
  assumes "i < length df"
  shows "dq_scores df products ! i =
           100 - (if price_source (enrich_prices df products ! i) = inferred_from_sku_avg
                     \<or> price_source (enrich_prices df products ! i) = inferred_from_master
                     \<or> (price_source (enrich_prices df products ! i) = has_total_no_unit_price
                         \<and> 0 < quantity (df ! i))
                  then 10 else 0)
               - (if unit_price (enrich_prices df products ! i) = 0
                     \<and> line_total (enrich_prices df products ! i) = 0 then 30 else 0)
               - (if region_name (df ! i) = ''Unknown'' then 20 else 0)
               - (if customer_id (df ! i) = None \<or> customer_id (df ! i) = Some [] then 10 else 0)
       \<and> 0 \<le> dq_scores df products ! i \<and> dq_scores df products ! i \<le> 100
       \<and> (quantity (df ! i) = 5 \<and> unit_price (df ! i) = 0 \<and> line_total (df ! i) = 0
            \<and> (\<forall>j<length df. j \<noteq> i \<longrightarrow> lineitem.sku (df ! j) \<noteq> lineitem.sku (df ! i))
            \<and> master_prices products (lineitem.sku (df ! i)) = None
          \<longrightarrow> unit_price (enrich_prices df products ! i) = 0
              \<and> line_total (enrich_prices df products ! i) = 0
              \<and> price_source (enrich_prices df products ! i) = missing_no_reference
              \<and> dq_scores df products ! i =
                  100 - 30 - (if region_name (df ! i) = ''Unknown'' then 20 else 0)
                    - (if customer_id (df ! i) = None \<or> customer_id (df ! i) = Some []
                       then 10 else 0))"
proof -
  let ?a = "sku_avg_price df (lineitem.sku (df ! i))"
  let ?m = "master_prices products (lineitem.sku (df ! i))"
  let ?e = "enrich_row ?a ?m (df ! i)"
  have e: "enrich_prices df products ! i = ?e"
    using assms by (simp add: enrich_prices_def)
  have d: "dq_scores df products ! i = dq_score ?e"
    using assms by (simp add: dq_scores_def enrich_prices_def)
  have inf: "price_inferred ?e \<longleftrightarrow>
      price_source ?e = inferred_from_sku_avg \<or> price_source ?e = inferred_from_master
      \<or> (price_source ?e = has_total_no_unit_price \<and> 0 < quantity (df ! i))"
    by (rule enrich_row_price_inferred) (auto dest: sku_avg_price_pos master_prices_pos)
  have formula: "dq_score ?e =
           100 - (if price_source ?e = inferred_from_sku_avg
                     \<or> price_source ?e = inferred_from_master
                     \<or> (price_source ?e = has_total_no_unit_price \<and> 0 < quantity (df ! i))
                  then 10 else 0)
               - (if unit_price ?e = 0 \<and> line_total ?e = 0 then 30 else 0)
               - (if region_name (df ! i) = ''Unknown'' then 20 else 0)
               - (if customer_id (df ! i) = None \<or> customer_id (df ! i) = Some [] then 10 else 0)"
    unfolding dq_score_eq inf by simp
  have range: "0 \<le> dq_score ?e \<and> dq_score ?e \<le> 100"
    unfolding dq_score_eq by simp
  have scen: "unit_price ?e = 0 \<and> line_total ?e = 0 \<and> price_source ?e = missing_no_reference
      \<and> dq_score ?e = 100 - 30 - (if region_name (df ! i) = ''Unknown'' then 20 else 0)
                    - (if customer_id (df ! i) = None \<or> customer_id (df ! i) = Some []
                       then 10 else 0)"
    if tm: "unit_price (df ! i) = 0" "line_total (df ! i) = 0"
      and alone: "\<forall>j<length df. j \<noteq> i \<longrightarrow> lineitem.sku (df ! j) \<noteq> lineitem.sku (df ! i)"
      and nom: "?m = None"
  proof -
    from tm have t: "truly_missing (df ! i)" by (simp add: truly_missing_def)
    with assms alone have "?a = None" by (intro sku_avg_price_alone) auto
    with nom t have "?e = (add_tracking (df ! i))\<lparr>price_source := missing_no_reference\<rparr>"
      by (simp add: enrich_row_unfixable)
    with tm show ?thesis by (simp add: dq_score_eq)
  qed
  show ?thesis
    unfolding e d using formula range scen by blast
qed

theorem dq_score_of_enriched_row_witness:
  "dq_scores ledger_AB [] ! 2 = 70
   \<and> unit_price (enrich_prices ledger_AB [] ! 2) = 0
   \<and> line_total (enrich_prices ledger_AB [] ! 2) = 0
   \<and> price_source (enrich_prices ledger_AB [] ! 2) = missing_no_reference"
proof -
  have l: "2 < length ledger_AB" by (simp add: ledger_AB_def)
  have r: "ledger_AB ! 2 = scenario_D" by (simp add: ledger_AB_def)
  have alone: "\<forall>j<length ledger_AB. j \<noteq> 2 \<longrightarrow>
      lineitem.sku (ledger_AB ! j) \<noteq> lineitem.sku (ledger_AB ! 2)"
    by (auto simp: ledger_AB_def scenario_D_def nth_Cons' less_Suc_eq numeral_3_eq_3)
  have h: "quantity (ledger_AB ! 2) = 5 \<and> unit_price (ledger_AB ! 2) = 0
      \<and> line_total (ledger_AB ! 2) = 0
      \<and> master_prices [] (lineitem.sku (ledger_AB ! 2)) = None
      \<and> region_name (ledger_AB ! 2) \<noteq> ''Unknown''
      \<and> customer_id (ledger_AB ! 2) = Some ''C2''"
    unfolding r by (simp add: scenario_D_def master_prices_def)
  from dq_score_of_enriched_row [OF l, of "[]"] alone h show ?thesis by simp
qed

text \<open>
  The claim as the specification states it deducts 10 only for steps 2 and 3. The row
  of scenario C is back-filled in step 1, has a known region and a customer, keeps
  its revenue, and scores 90.
\<close>

theorem dq_score_backfill_counterexample:
  "price_source (enrich_prices [scenario_C] [] ! 0) = has_total_no_unit_price
   \<and> line_total (enrich_prices [scenario_C] [] ! 0) = 500
   \<and> region_name scenario_C = ''Gauteng'' \<and> customer_id scenario_C = Some ''C1''
   \<and> dq_scores [scenario_C] [] ! 0 = 90"
  by (simp add: scenario_C_def enrich_eval dq_scores_def dq_score_def)


section \<open>Properties of the trainers and predictors\<close>

subsection \<open>Grouping\<close>

lemma set_unique [simp]: "set (unique xs) = set xs"
  by (induction xs rule: unique.induct) auto

lemma distinct_unique [simp]: "distinct (unique xs)"
  by (induction xs rule: unique.induct) auto

lemma mset_concat_groups:
  "distinct ks \<Longrightarrow> key ` set xs \<subseteq> set ks \<Longrightarrow>
   mset (concat (map (\<lambda>k. filter (\<lambda>r. key r = k) xs) ks)) = mset xs"
proof (induction ks arbitrary: xs)
  case Nil
  then show ?case by simp
next
  case (Cons k ks)
  let ?rest = "filter (\<lambda>r. key r \<noteq> k) xs"
  have same: "filter (\<lambda>r. key r = k') xs = filter (\<lambda>r. key r = k') ?rest" if "k' \<in> set ks" for k'
  proof -
    from that Cons.prems(1) have "k' \<noteq> k" by auto
    then show ?thesis by (auto intro: filter_cong)
  qed
  have groups: "map (\<lambda>k. filter (\<lambda>r. key r = k) xs) ks
      = map (\<lambda>k. filter (\<lambda>r. key r = k) ?rest) ks"
    by (rule map_cong) (simp_all only: same)
  have "distinct ks" "key ` set ?rest \<subseteq> set ks"
    using Cons.prems by auto
  then have rest: "mset (concat (map (\<lambda>k. filter (\<lambda>r. key r = k) ?rest) ks)) = mset ?rest"
    by (rule Cons.IH)
  have "mset (concat (map (\<lambda>k. filter (\<lambda>r. key r = k) xs) (k # ks)))
      = mset (filter (\<lambda>r. key r = k) xs)
        + mset (concat (map (\<lambda>k. filter (\<lambda>r. key r = k) xs) ks))"
    by simp
  also have "\<dots> = mset (filter (\<lambda>r. key r = k) xs) + mset ?rest"
    by (simp only: groups rest)
  also have "\<dots> = mset xs"
    by (simp only: mset_filter multiset_partition [symmetric])
  finally show ?case .
qed

lemma length_filter_sort_key [simp]:
  "length (filter P (sort_key k xs)) = length (filter P xs)"
  by (simp add: filter_sort)

subsection \<open>The zero fill\<close>

lemma fillna0_not_None [simp]: "fillna0 c \<noteq> None"
  by (simp add: fillna0_def split: option.splits)

lemma fillna_row_fields [simp]:
  "sku (fillna_row r) = sku r" "year_week (fillna_row r) = year_week r"
  "week_num (fillna_row r) = week_num r" "category (fillna_row r) = category r"
  "weekly_quantity (fillna_row r) = weekly_quantity r"
  by (simp_all add: fillna_row_def)

lemma has_core_fillna_row [simp]: "has_core (fillna_row r)"
  by (simp add: has_core_def fillna_row_def)

lemma dropna_core_filled [simp]:
  "dropna_core (filter P (map fillna_row df)) = filter P (map fillna_row df)"
  unfolding dropna_core_def by (rule filter_True) auto

lemma dropna_core_filter: "dropna_core (filter P df) = filter P (dropna_core df)"
  by (auto simp: dropna_core_def intro: filter_cong)

subsection \<open>The per-SKU loops of TRAIN\_V4\_MODELS.py\<close>

lemma train_one_sku_apply:
  "train_one_sku fit trn M k s =
     (if s = k \<and> 4 \<le> length (dropna_core (filter (\<lambda>r. sku r = k) trn))
         \<and> fit (dropna_core (filter (\<lambda>r. sku r = k) trn)) \<noteq> None
      then fit (dropna_core (filter (\<lambda>r. sku r = k) trn))
      else M s)"
  by (auto simp: train_one_sku_def Let_def split: option.splits)

lemma foldl_train_one_sku:
  "foldl (train_one_sku fit trn) M ks s =
     (if s \<in> set ks \<and> 4 \<le> length (dropna_core (filter (\<lambda>r. sku r = s) trn))
         \<and> fit (dropna_core (filter (\<lambda>r. sku r = s) trn)) \<noteq> None
      then fit (dropna_core (filter (\<lambda>r. sku r = s) trn))
      else M s)"
proof (induction ks arbitrary: M)
  case Nil
  then show ?case by simp
next
  case (Cons k ks)
  show ?case
    by (simp only: foldl_Cons Cons.IH train_one_sku_apply [of fit trn M k s] set_simps insert_iff)
       auto
qed

lemma train_sku_models_apply:
  "train_sku_models fit trn s =
     (if 4 \<le> length (dropna_core (filter (\<lambda>r. sku r = s) trn))
      then fit (dropna_core (filter (\<lambda>r. sku r = s) trn)) else None)"
proof -
  have "s \<in> set (map sku trn)" if "4 \<le> length (dropna_core (filter (\<lambda>r. sku r = s) trn))"
  proof -
    from that have "dropna_core (filter (\<lambda>r. sku r = s) trn) \<noteq> []" by auto
    then show ?thesis by (auto simp: dropna_core_def filter_empty_conv)
  qed
  then show ?thesis
    unfolding train_sku_models_def foldl_train_one_sku by auto
qed

lemma train_sku_filled:
  "filter (\<lambda>r. sku r = s) (train_sku (add_v4_features weekly0))
     = map fillna_row (filter (\<lambda>r. sku r = s \<and> category r \<noteq> ''Unknown'' \<and> week_num r \<le> 26)
         (sort_key (\<lambda>r. (sku r, year_week r)) weekly0))"
  by (simp add: train_sku_def train_all_def add_v4_features_def H1_END_WEEK_def filter_map comp_def
      conj_commute conj_left_commute)

lemma trained_sku_models_apply:
  "trained_sku_models fit weekly0 s =
     (if 4 \<le> length (filter (\<lambda>r. sku r = s \<and> category r \<noteq> ''Unknown'' \<and> week_num r \<le> 26) weekly0)
      then fit (filter (\<lambda>r. sku r = s) (train_sku (add_v4_features weekly0)))
      else None)"
proof -
  have d: "dropna_core (filter (\<lambda>r. sku r = s) (train_sku (add_v4_features weekly0)))
      = filter (\<lambda>r. sku r = s) (train_sku (add_v4_features weekly0))"
    unfolding dropna_core_def by (rule filter_True) (auto simp: train_sku_filled)
  show ?thesis
    unfolding trained_sku_models_def train_sku_models_apply d
    by (simp add: train_sku_filled)
qed

lemma predict_one_sku_keys:
  "map (\<lambda>p. (prediction.sku p, prediction.year_week p)) (predict_one_sku M g h tst s)
     = map (\<lambda>r. (sku r, year_week r)) (filter (\<lambda>r. sku r = s) (dropna_core tst))"
  by (auto simp: predict_one_sku_def Let_def dropna_core_filter comp_def split: option.splits)

lemma predict_one_sku_tags:
  "p \<in> set (predict_one_sku M g h tst s) \<Longrightarrow>
   prediction.sku p = s \<and> h1_weeks p = h s
   \<and> model_type p = (if s \<in> dom M then ''sku'' else ''global'')"
  by (auto simp: predict_one_sku_def Let_def split: option.splits if_splits)

lemma predict_skus_keys:
  "mset (map (\<lambda>p. (prediction.sku p, prediction.year_week p)) (predict_skus M g h tst))
     = mset (map (\<lambda>r. (sku r, year_week r)) (dropna_core tst))"
proof -
  have "map (\<lambda>p. (prediction.sku p, prediction.year_week p)) (predict_skus M g h tst)
      = map (\<lambda>r. (sku r, year_week r))
          (concat (map (\<lambda>s. filter (\<lambda>r. sku r = s) (dropna_core tst)) (unique (map sku tst))))"
    by (simp add: predict_skus_def map_concat comp_def predict_one_sku_keys)
  moreover have "mset (concat (map (\<lambda>s. filter (\<lambda>r. sku r = s) (dropna_core tst))
        (unique (map sku tst)))) = mset (dropna_core tst)"
    by (rule mset_concat_groups) (auto simp: dropna_core_def)
  ultimately show ?thesis by (simp only: mset_map)
qed

lemma predict_skus_tags:
  "p \<in> set (predict_skus M g h tst) \<Longrightarrow>
   h1_weeks p = h (prediction.sku p)
   \<and> model_type p = (if prediction.sku p \<in> dom M then ''sku'' else ''global'')"
proof -
  assume "p \<in> set (predict_skus M g h tst)"
  then obtain s where "p \<in> set (predict_one_sku M g h tst s)"
    by (auto simp: predict_skus_def)
  from predict_one_sku_tags [OF this] show ?thesis by simp
qed

lemma test_all_filled:
  "test_all (add_v4_features weekly0)
     = map fillna_row (filter (\<lambda>r. 26 < week_num r) (sort_key (\<lambda>r. (sku r, year_week r)) weekly0))"
  by (simp add: test_all_def add_v4_features_def H1_END_WEEK_def filter_map comp_def)

lemma test_all_keys:
  "mset (map (\<lambda>r. (sku r, year_week r)) (dropna_core (test_all (add_v4_features weekly0))))
     = mset (map (\<lambda>r. (sku r, year_week r)) (filter (\<lambda>r. 26 < week_num r) weekly0))"
proof -
  have "dropna_core (test_all (add_v4_features weekly0)) = test_all (add_v4_features weekly0)"
    unfolding dropna_core_def by (rule filter_True) (auto simp: test_all_filled)
  then show ?thesis
    by (simp add: test_all_filled comp_def filter_sort)
qed

lemma add_confidence_fields [simp]:
  "map prediction.sku (add_confidence sku_df) = map prediction.sku sku_df"
  "map prediction.year_week (add_confidence sku_df) = map prediction.year_week sku_df"
  "map model_type (add_confidence sku_df) = map model_type sku_df"
  "map h1_weeks (add_confidence sku_df) = map h1_weeks sku_df"
  by (simp_all add: add_confidence_def comp_def)

lemma add_confidence_row:
  "q \<in> set (add_confidence sku_df) \<Longrightarrow>
   \<exists>p\<in>set sku_df. prediction.sku q = prediction.sku p
      \<and> prediction.year_week q = prediction.year_week p
      \<and> model_type q = model_type p \<and> h1_weeks q = h1_weeks p
      \<and> wmape q = sku_wmape sku_df (prediction.sku p)
      \<and> confidence q = get_confidence (sku_wmape sku_df (prediction.sku p)) (h1_weeks p)"
  by (auto simp: add_confidence_def)

lemma main_sku_Inr:
  assumes "main_sku fit weekly0 = Inr sku_df"
  obtains g where
    "fit (dropna_core (train_sku (add_v4_features weekly0))) = Some g"
    "sku_df = add_confidence
       (predict_skus (trained_sku_models fit weekly0) g
          (h1_weeks_per_sku (add_v4_features weekly0)) (test_all (add_v4_features weekly0)))"
  using assms
  by (auto simp: main_sku_def Let_def trained_sku_models_def split: option.splits if_splits)

subsection \<open>The per-category loops of TRAIN\_V3\_HYBRID.py\<close>

lemma train_category_models_Inr:
  "train_category_models fit trn cats M = Inr cm \<Longrightarrow>
   cm cat =
     (if cat \<in> set cats
      then Some (if length (dropna_core (filter (\<lambda>r. category r = cat) trn)) < 50 then None
                 else fit (dropna_core (filter (\<lambda>r. category r = cat) trn)))
      else M cat)
   \<and> (cat \<in> set cats \<longrightarrow> 50 \<le> length (dropna_core (filter (\<lambda>r. category r = cat) trn))
        \<longrightarrow> fit (dropna_core (filter (\<lambda>r. category r = cat) trn)) \<noteq> None)"
proof (induction fit trn cats M rule: train_category_models.induct)
  case (1 fit trn category_models)
  then show ?case by simp
next
  case (2 fit trn c cats category_models)
  let ?rows = "dropna_core (filter (\<lambda>r. category r = c) trn)"
  show ?case
  proof (cases "length ?rows < 50")
    case True
    with "2.prems" have "train_category_models fit trn cats (category_models(c \<mapsto> None)) = Inr cm"
      by (simp add: Let_def)
    from "2.IH"(1) [OF refl True this] True show ?thesis by auto
  next
    case False
    with "2.prems" obtain m where m: "fit ?rows = Some m"
      and rec: "train_category_models fit trn cats (category_models(c \<mapsto> Some m)) = Inr cm"
      by (auto simp: Let_def split: option.splits)
    from "2.IH"(2) [OF refl False m rec] False m show ?thesis by auto
  qed
qed

lemma predict_one_category_keys:
  "map (\<lambda>p. (prediction.sku p, prediction.year_week p)) (predict_one_category cm g tst cat)
     = map (\<lambda>r. (sku r, year_week r)) (filter (\<lambda>r. category r = cat) (dropna_core tst))"
  by (auto simp: predict_one_category_def Let_def dropna_core_filter comp_def
      split: option.splits)

lemma predict_one_category_tags:
  "p \<in> set (predict_one_category cm g tst cat) \<Longrightarrow>
   prediction.category p = cat
   \<and> model_type p = (case cm cat of Some (Some m) \<Rightarrow> ''category'' | _ \<Rightarrow> ''global'')"
  by (auto simp: predict_one_category_def Let_def split: option.splits if_splits)

lemma predict_categories_keys:
  "mset (map (\<lambda>p. (prediction.sku p, prediction.year_week p)) (predict_categories cm g tst))
     = mset (map (\<lambda>r. (sku r, year_week r)) (dropna_core tst))"
proof -
  have "map (\<lambda>p. (prediction.sku p, prediction.year_week p)) (predict_categories cm g tst)
      = map (\<lambda>r. (sku r, year_week r))
          (concat (map (\<lambda>c. filter (\<lambda>r. category r = c) (dropna_core tst))
             (unique (map category tst))))"
    by (simp add: predict_categories_def map_concat comp_def predict_one_category_keys)
  moreover have "mset (concat (map (\<lambda>c. filter (\<lambda>r. category r = c) (dropna_core tst))
        (unique (map category tst)))) = mset (dropna_core tst)"
    by (rule mset_concat_groups) (auto simp: dropna_core_def)
  ultimately show ?thesis by (simp only: mset_map)
qed

lemma predict_categories_tags:
  assumes "p \<in> set (predict_categories cm g tst)"
  shows "prediction.category p \<in> category ` set tst
       \<and> model_type p =
           (case cm (prediction.category p) of Some (Some m) \<Rightarrow> ''category'' | _ \<Rightarrow> ''global'')"
proof -
  from assms obtain c where c: "c \<in> category ` set tst" "p \<in> set (predict_one_category cm g tst c)"
    by (auto simp: predict_categories_def)
  from predict_one_category_tags [OF c(2)] c(1) show ?thesis by simp
qed

lemma main_hybrid_Inr:
  assumes "main_hybrid fit weekly = Inr predictions"
  obtains g cm where
    "train_category_models fit (filter (\<lambda>r. week_num r \<le> 26) weekly)
       (unique (map category weekly)) Map.empty = Inr cm"
    "predictions = predict_categories cm g (filter (\<lambda>r. 26 < week_num r) weekly)"
  using assms
  by (auto simp: main_hybrid_def Let_def split: option.splits sum.splits if_splits)

subsection \<open>Routing\<close>

lemma main_hybrid_routing:
  assumes "main_hybrid fit weekly = Inr predictions"
  shows "mset (map (\<lambda>p. (prediction.sku p, prediction.year_week p)) predictions)
           = mset (map (\<lambda>r. (sku r, year_week r)) (filter (\<lambda>r. 26 < week_num r \<and> has_core r) weekly))"
    and "p \<in> set predictions \<Longrightarrow>
         model_type p =
           (if 50 \<le> length (dropna_core (filter (\<lambda>r. category r = prediction.category p)
                                (filter (\<lambda>r. week_num r \<le> 26) weekly)))
            then ''category'' else ''global'')"
proof -
  from assms obtain g cm where
    cm: "train_category_models fit (filter (\<lambda>r. week_num r \<le> 26) weekly)
       (unique (map category weekly)) Map.empty = Inr cm"
    and p: "predictions = predict_categories cm g (filter (\<lambda>r. 26 < week_num r) weekly)"
    by (rule main_hybrid_Inr)
  show "mset (map (\<lambda>p. (prediction.sku p, prediction.year_week p)) predictions)
           = mset (map (\<lambda>r. (sku r, year_week r)) (filter (\<lambda>r. 26 < week_num r \<and> has_core r) weekly))"
    unfolding p predict_categories_keys by (simp add: dropna_core_def)
  assume "p \<in> set predictions"
  with p have "p \<in> set (predict_categories cm g (filter (\<lambda>r. 26 < week_num r) weekly))"
    by simp
  from predict_categories_tags [OF this]
  have tags: "prediction.category p \<in> category ` set (filter (\<lambda>r. 26 < week_num r) weekly)"
    "model_type p =
       (case cm (prediction.category p) of Some (Some m) \<Rightarrow> ''category'' | _ \<Rightarrow> ''global'')"
    by blast+
  then have "prediction.category p \<in> set (unique (map category weekly))" by auto
  with train_category_models_Inr [OF cm, of "prediction.category p"] tags(2)
  show "model_type p =
           (if 50 \<le> length (dropna_core (filter (\<lambda>r. category r = prediction.category p)
                                (filter (\<lambda>r. week_num r \<le> 26) weekly)))
            then ''category'' else ''global'')"
    by (auto split: option.splits)
qed

lemma main_sku_routing:
  assumes "main_sku fit weekly0 = Inr sku_df"
  shows "mset (map (\<lambda>p. (prediction.sku p, prediction.year_week p)) sku_df)
           = mset (map (\<lambda>r. (sku r, year_week r)) (filter (\<lambda>r. 26 < week_num r) weekly0))"
    and "p \<in> set sku_df \<Longrightarrow>
         model_type p =
           (if prediction.sku p \<in> dom (trained_sku_models fit weekly0) then ''sku'' else ''global'')"
    and "p \<in> set sku_df \<Longrightarrow> q \<in> set sku_df \<Longrightarrow> prediction.sku p = prediction.sku q \<Longrightarrow>
         wmape p = wmape q \<and> confidence p = confidence q"
    and "p \<in> set sku_df \<Longrightarrow> confidence p = get_confidence (wmape p) (h1_weeks p)"
proof -
  from assms obtain g where
    s: "sku_df = add_confidence
       (predict_skus (trained_sku_models fit weekly0) g
          (h1_weeks_per_sku (add_v4_features weekly0)) (test_all (add_v4_features weekly0)))"
    by (rule main_sku_Inr)
  let ?res = "predict_skus (trained_sku_models fit weekly0) g
          (h1_weeks_per_sku (add_v4_features weekly0)) (test_all (add_v4_features weekly0))"
  have "map (\<lambda>p. (prediction.sku p, prediction.year_week p)) sku_df
      = map (\<lambda>p. (prediction.sku p, prediction.year_week p)) ?res"
    unfolding s by (simp add: add_confidence_def comp_def)
  then show "mset (map (\<lambda>p. (prediction.sku p, prediction.year_week p)) sku_df)
           = mset (map (\<lambda>r. (sku r, year_week r)) (filter (\<lambda>r. 26 < week_num r) weekly0))"
    by (simp only: predict_skus_keys test_all_keys)
  have row: "\<exists>p'\<in>set ?res. prediction.sku p = prediction.sku p'
      \<and> model_type p = model_type p' \<and> h1_weeks p = h1_weeks p'
      \<and> wmape p = sku_wmape ?res (prediction.sku p')
      \<and> confidence p = get_confidence (sku_wmape ?res (prediction.sku p')) (h1_weeks p')"
    if "p \<in> set sku_df" for p
    using add_confidence_row [of p ?res] that unfolding s by blast
  show "model_type p =
           (if prediction.sku p \<in> dom (trained_sku_models fit weekly0) then ''sku'' else ''global'')"
    if "p \<in> set sku_df"
  proof -
    from row [OF that] obtain p' where "p' \<in> set ?res" "prediction.sku p = prediction.sku p'"
      "model_type p = model_type p'" by blast
    with predict_skus_tags [of p'] show ?thesis by simp
  qed
  show "confidence p = get_confidence (wmape p) (h1_weeks p)" if "p \<in> set sku_df"
    using row [OF that] by auto
  show "wmape p = wmape q \<and> confidence p = confidence q"
    if "p \<in> set sku_df" "q \<in> set sku_df" "prediction.sku p = prediction.sku q"
  proof -
    from row [OF that(1)] obtain p' where p': "p' \<in> set ?res" "prediction.sku p = prediction.sku p'"
      "h1_weeks p = h1_weeks p'" "wmape p = sku_wmape ?res (prediction.sku p')"
      "confidence p = get_confidence (sku_wmape ?res (prediction.sku p')) (h1_weeks p')" by blast
    from row [OF that(2)] obtain q' where q': "q' \<in> set ?res" "prediction.sku q = prediction.sku q'"
      "h1_weeks q = h1_weeks q'" "wmape q = sku_wmape ?res (prediction.sku q')"
      "confidence q = get_confidence (sku_wmape ?res (prediction.sku q')) (h1_weeks q')" by blast
    from predict_skus_tags [OF p'(1)] predict_skus_tags [OF q'(1)] p' q' that(3)
    show ?thesis by simp
  qed
qed

lemma main_sku_total:
  assumes "fit (dropna_core (train_sku (add_v4_features weekly0))) \<noteq> None"
    and "filter (\<lambda>r. 26 < week_num r) weekly0 \<noteq> []"
  shows "\<exists>sku_df. main_sku fit weekly0 = Inr sku_df"
proof -
  from assms(1) obtain g where g: "fit (dropna_core (train_sku (add_v4_features weekly0))) = Some g"
    by auto
  let ?res = "predict_skus (train_sku_models fit (train_sku (add_v4_features weekly0))) g
          (h1_weeks_per_sku (add_v4_features weekly0)) (test_all (add_v4_features weekly0))"
  have "mset (map (\<lambda>p. (prediction.sku p, prediction.year_week p)) ?res)
      = mset (map (\<lambda>r. (sku r, year_week r)) (filter (\<lambda>r. 26 < week_num r) weekly0))"
    by (simp only: predict_skus_keys test_all_keys)
  with assms(2) have "?res \<noteq> []" by auto
  with g show ?thesis by (simp add: main_sku_def Let_def)
qed


subsection \<open>The example tables, evaluated\<close>

lemma add_v4_features_ex:
  "add_v4_features weekly_ex =
     [weekly_row 1 ''W23'' 23 ''Tools'' 10 (Some 0) (Some 0) (Some 0) (Some 10),
      weekly_row 1 ''W24'' 24 ''Tools'' 12 (Some 10) (Some 0) (Some 0) (Some 11),
      weekly_row 1 ''W25'' 25 ''Tools'' 14 (Some 12) (Some 10) (Some 0) (Some 12),
      weekly_row 1 ''W26'' 26 ''Tools'' 12 (Some 14) (Some 12) (Some 0) (Some 12),
      weekly_row 2 ''W24'' 24 ''Tools'' 10 (Some 0) (Some 0) (Some 0) (Some 10),
      weekly_row 2 ''W25'' 25 ''Tools'' 10 (Some 10) (Some 0) (Some 0) (Some 10),
      weekly_row 2 ''W26'' 26 ''Tools'' 10 (Some 10) (Some 10) (Some 0) (Some 10),
      weekly_row 2 ''W27'' 27 ''Tools'' 10 (Some 10) (Some 10) (Some 0) (Some 10),
      weekly_row 3 ''W27'' 27 ''Unknown'' 5 (Some 0) (Some 0) (Some 0) (Some 5)]"
  by (simp add: add_v4_features_def weekly_ex_def weekly_row_def fillna_row_def fillna0_def)

lemma main_sku_ex:
  "main_sku fit_const weekly_ex =
     Inr [\<lparr>prediction.sku = 2, category = ''Tools'', year_week = ''W27'',
           actual = 10, predicted = 8, model_type = ''global'', h1_weeks = 3,
           wmape = 20, confidence = Low\<rparr>,
          \<lparr>prediction.sku = 3, category = ''Unknown'', year_week = ''W27'',
           actual = 5, predicted = 8, model_type = ''global'', h1_weeks = 0,
           wmape = 60, confidence = Low\<rparr>]"
  unfolding main_sku_def add_v4_features_ex
  by (simp add: weekly_row_def fit_const_def dropna_core_def
      has_core_def predict_skus_def predict_one_sku_def clip0_def Let_def
      train_sku_def train_all_def test_all_def H1_END_WEEK_def train_sku_models_def
      train_one_sku_def h1_weeks_per_sku_def add_confidence_def sku_wmape_def
      calculate_wmape_def get_confidence_def round1_def round_half_even_def)

lemma main_hybrid_ex:
  "main_hybrid fit_const weekly_hybrid_ex =
     Inr [\<lparr>prediction.sku = 1, category = ''Tools'', year_week = ''W27'',
           actual = 12, predicted = 8, model_type = ''global''\<rparr>]"
  by (simp add: main_hybrid_def weekly_hybrid_ex_def weekly_row_def fit_const_def dropna_core_def
      has_core_def predict_categories_def predict_one_category_def clip0_def Let_def)

lemma trained_sku_models_ex:
  "trained_sku_models fit_const weekly_ex 1 \<noteq> None"
  "trained_sku_models fit_const weekly_ex 2 = None"
  unfolding trained_sku_models_apply add_v4_features_ex
  by (simp_all add: weekly_ex_def weekly_row_def fit_const_def train_sku_def train_all_def
      H1_END_WEEK_def)

subsection \<open>Claims on routing, sufficiency and confidence\<close>

text \<open>
  Claim C2, as the code has it. When the run completes, the prediction records
  correspond one to one to the test rows (week after 26) whose lag and
  rolling-average cells are all non-null, by SKU and week: a test row with a null
  cell is dropped before prediction. In TRAIN_V3_HYBRID.py the scope of a record is
  \<^verbatim>\<open>category\<close> when the row's category has at least 50 complete training rows and
  \<^verbatim>\<open>global\<close> otherwise. In the per-SKU part of TRAIN_V4_MODELS.py every null cell is
  zero-filled before the split, so every test row has exactly its own record, with
  scope \<^verbatim>\<open>sku\<close> when a model was trained for its SKU and \<^verbatim>\<open>global\<close> otherwise, also
  for a SKU that training never saw; that part completes whenever the pooled fit
  succeeds and the test partition is not empty.
\<close>

theorem routing_covers_complete_test_rows:
  "(main_hybrid fit weekly = Inr predictions \<longrightarrow>
      mset (map (\<lambda>p. (prediction.sku p, prediction.year_week p)) predictions)
        = mset (map (\<lambda>r. (sku r, year_week r))
            (filter (\<lambda>r. 26 < week_num r \<and> has_core r) weekly))
      \<and> (\<forall>p\<in>set predictions.
            model_type p =
              (if 50 \<le> length (dropna_core (filter (\<lambda>r. category r = prediction.category p)
                                   (filter (\<lambda>r. week_num r \<le> 26) weekly)))
               then ''category'' else ''global'')))
   \<and> (main_sku fit weekly0 = Inr sku_df \<longrightarrow>
      mset (map (\<lambda>p. (prediction.sku p, prediction.year_week p)) sku_df)
        = mset (map (\<lambda>r. (sku r, year_week r)) (filter (\<lambda>r. 26 < week_num r) weekly0))
      \<and> (\<forall>p\<in>set sku_df.
            model_type p =
              (if prediction.sku p \<in> dom (trained_sku_models fit weekly0)
               then ''sku'' else ''global'')))
   \<and> (fit (dropna_core (train_sku (add_v4_features weekly0))) \<noteq> None
        \<and> filter (\<lambda>r. 26 < week_num r) weekly0 \<noteq> []
      \<longrightarrow> (\<exists>sku_df. main_sku fit weekly0 = Inr sku_df))"
  using main_hybrid_routing [of fit weekly predictions]
    main_sku_routing(1,2) [of fit weekly0 sku_df] main_sku_total [of fit weekly0]
  by blast

theorem routing_covers_complete_test_rows_witness:
  "mset (map (\<lambda>r. (sku r, year_week r))
        (filter (\<lambda>r. 26 < week_num r \<and> has_core r) weekly_hybrid_ex)) = {#(1, ''W27'')#}
   \<and> mset (map (\<lambda>r. (sku r, year_week r)) (filter (\<lambda>r. 26 < week_num r) weekly_ex))
       = {#(2, ''W27''), (3, ''W27'')#}
   \<and> 2 \<notin> dom (trained_sku_models fit_const weekly_ex)
   \<and> 3 \<notin> dom (trained_sku_models fit_const weekly_ex)
   \<and> fit_const (dropna_core (train_sku (add_v4_features weekly_ex))) \<noteq> None
   \<and> filter (\<lambda>r. 26 < week_num r) weekly_ex \<noteq> []"
proof -
  let ?hp = "[\<lparr>prediction.sku = 1, category = ''Tools'', year_week = ''W27'',
           actual = 12, predicted = 8, model_type = ''global''\<rparr>]"
  let ?sd = "[\<lparr>prediction.sku = 2, category = ''Tools'', year_week = ''W27'',
           actual = 10, predicted = 8, model_type = ''global'', h1_weeks = 3,
           wmape = 20, confidence = Low\<rparr>,
          \<lparr>prediction.sku = 3, category = ''Unknown'', year_week = ''W27'',
           actual = 5, predicted = 8, model_type = ''global'', h1_weeks = 0,
           wmape = 60, confidence = Low\<rparr>]"
  note t = routing_covers_complete_test_rows
    [where fit = fit_const and weekly = weekly_hybrid_ex and predictions = ?hp
       and ?weekly0.0 = weekly_ex and sku_df = ?sd]
  from t main_hybrid_ex
  have h: "mset (map (\<lambda>p. (prediction.sku p, prediction.year_week p)) ?hp)
        = mset (map (\<lambda>r. (sku r, year_week r))
            (filter (\<lambda>r. 26 < week_num r \<and> has_core r) weekly_hybrid_ex))"
    by blast
  from t main_sku_ex
  have s: "mset (map (\<lambda>p. (prediction.sku p, prediction.year_week p)) ?sd)
        = mset (map (\<lambda>r. (sku r, year_week r)) (filter (\<lambda>r. 26 < week_num r) weekly_ex))"
    and m: "\<forall>p\<in>set ?sd. model_type p =
              (if prediction.sku p \<in> dom (trained_sku_models fit_const weekly_ex)
               then ''sku'' else ''global'')"
    by blast+
  from m have d: "2 \<notin> dom (trained_sku_models fit_const weekly_ex)"
    "3 \<notin> dom (trained_sku_models fit_const weekly_ex)"
    by (simp_all split: if_splits)
  have g: "fit_const (dropna_core (train_sku (add_v4_features weekly_ex))) \<noteq> None"
    unfolding add_v4_features_ex
    by (simp add: fit_const_def dropna_core_def train_sku_def train_all_def weekly_row_def
        H1_END_WEEK_def has_core_def)
  have n: "filter (\<lambda>r. 26 < week_num r) weekly_ex \<noteq> []"
    by (simp add: weekly_ex_def weekly_row_def)
  from h [symmetric] s [symmetric] d g n show ?thesis by simp
qed

text \<open>
  The claim as the specification states it fails in TRAIN_V3_HYBRID.py: the test
  partition of the example holds two rows, the run completes, and the row of SKU 2,
  whose lag cells are null, has no prediction record.
\<close>

theorem hybrid_drops_incomplete_test_row_counterexample:
  "map (\<lambda>r. (sku r, year_week r)) (filter (\<lambda>r. 26 < week_num r) weekly_hybrid_ex)
     = [(1, ''W27''), (2, ''W27'')]
   \<and> main_hybrid fit_const weekly_hybrid_ex =
     Inr [\<lparr>prediction.sku = 1, category = ''Tools'', year_week = ''W27'',
           actual = 12, predicted = 8, model_type = ''global''\<rparr>]"
  using main_hybrid_ex by (simp add: weekly_hybrid_ex_def weekly_row_def)

lemma length_filter_conj_le:
  "length (filter (\<lambda>x. P x \<and> Q x) xs) \<le> length (filter P xs)"
  by (induction xs) auto

text \<open>
  Claim C3, as the code has it. In the per-SKU part of TRAIN_V4_MODELS.py a
  dedicated model exists for a SKU exactly when the SKU has at least 4 training rows
  (week up to 26) of a category other than \<^verbatim>\<open>Unknown\<close> and the fit on them does not
  raise; whether the SKU has a test row plays no part. A SKU with fewer than 4
  training weeks, 3 for one, has no dedicated model, and all of its prediction records
  carry the scope \<^verbatim>\<open>global\<close>.
\<close>

theorem dedicated_sku_model_iff:
  "(s \<in> dom (trained_sku_models fit weekly0) \<longleftrightarrow>
      4 \<le> length (filter (\<lambda>r. sku r = s \<and> category r \<noteq> ''Unknown'' \<and> week_num r \<le> 26) weekly0)
      \<and> fit (filter (\<lambda>r. sku r = s) (train_sku (add_v4_features weekly0))) \<noteq> None)
   \<and> (length (filter (\<lambda>r. sku r = s \<and> week_num r \<le> 26) weekly0) < 4 \<longrightarrow>
        s \<notin> dom (trained_sku_models fit weekly0)
        \<and> (main_sku fit weekly0 = Inr sku_df \<longrightarrow>
             (\<forall>p\<in>set sku_df. prediction.sku p = s \<longrightarrow> model_type p = ''global'')))"
proof -
  have iff: "s \<in> dom (trained_sku_models fit weekly0) \<longleftrightarrow>
      4 \<le> length (filter (\<lambda>r. sku r = s \<and> category r \<noteq> ''Unknown'' \<and> week_num r \<le> 26) weekly0)
      \<and> fit (filter (\<lambda>r. sku r = s) (train_sku (add_v4_features weekly0))) \<noteq> None"
    by (auto simp: dom_def trained_sku_models_apply)
  have few: "s \<notin> dom (trained_sku_models fit weekly0)"
    if "length (filter (\<lambda>r. sku r = s \<and> week_num r \<le> 26) weekly0) < 4"
  proof -
    have "length (filter (\<lambda>r. sku r = s \<and> category r \<noteq> ''Unknown'' \<and> week_num r \<le> 26) weekly0)
        \<le> length (filter (\<lambda>r. sku r = s \<and> week_num r \<le> 26) weekly0)"
      using length_filter_conj_le
        [of "\<lambda>r. sku r = s \<and> week_num r \<le> 26" "\<lambda>r. category r \<noteq> ''Unknown''" weekly0]
      by (simp add: conj_ac)
    with that iff show ?thesis by simp
  qed
  have pooled: "model_type p = ''global''"
    if "s \<notin> dom (trained_sku_models fit weekly0)" "main_sku fit weekly0 = Inr sku_df"
      "p \<in> set sku_df" "prediction.sku p = s" for p
    using main_sku_routing(2) [OF that(2,3)] that(1,4) by simp
  from iff few pooled show ?thesis by blast
qed

theorem dedicated_sku_model_iff_witness:
  "2 \<notin> dom (trained_sku_models fit_const weekly_ex)
   \<and> length (filter (\<lambda>r. sku r = 2 \<and> week_num r \<le> 26) weekly_ex) = 3
   \<and> list_all (\<lambda>p. prediction.sku p = 2 \<longrightarrow> model_type p = ''global'')
       [\<lparr>prediction.sku = 2, category = ''Tools'', year_week = ''W27'',
           actual = 10, predicted = 8, model_type = ''global'', h1_weeks = 3,
           wmape = 20, confidence = Low\<rparr>,
          \<lparr>prediction.sku = 3, category = ''Unknown'', year_week = ''W27'',
           actual = 5, predicted = 8, model_type = ''global'', h1_weeks = 0,
           wmape = 60, confidence = Low\<rparr>]
   \<and> 1 \<in> dom (trained_sku_models fit_const weekly_ex)
   \<and> 4 \<le> length (filter (\<lambda>r. sku r = 1 \<and> category r \<noteq> ''Unknown'' \<and> week_num r \<le> 26) weekly_ex)"
proof -
  let ?sd = "[\<lparr>prediction.sku = 2, category = ''Tools'', year_week = ''W27'',
           actual = 10, predicted = 8, model_type = ''global'', h1_weeks = 3,
           wmape = 20, confidence = Low\<rparr>,
          \<lparr>prediction.sku = 3, category = ''Unknown'', year_week = ''W27'',
           actual = 5, predicted = 8, model_type = ''global'', h1_weeks = 0,
           wmape = 60, confidence = Low\<rparr>]"
  have three: "length (filter (\<lambda>r. sku r = 2 \<and> week_num r \<le> 26) weekly_ex) = 3"
    by (simp add: weekly_ex_def weekly_row_def)
  then have few: "length (filter (\<lambda>r. sku r = 2 \<and> week_num r \<le> 26) weekly_ex) < 4"
    by simp
  have one: "1 \<in> dom (trained_sku_models fit_const weekly_ex)"
    using trained_sku_models_ex(1) by (simp add: dom_def)
  note t2 = dedicated_sku_model_iff [of 2 fit_const weekly_ex ?sd]
  from t2 few have no: "2 \<notin> dom (trained_sku_models fit_const weekly_ex)"
    by blast
  from t2 few main_sku_ex
  have pooled: "\<forall>p\<in>set ?sd. prediction.sku p = 2 \<longrightarrow> model_type p = ''global''"
    by blast
  from dedicated_sku_model_iff [of 1 fit_const weekly_ex ?sd] one
  have four: "4 \<le> length (filter (\<lambda>r. sku r = 1 \<and> category r \<noteq> ''Unknown'' \<and> week_num r \<le> 26)
      weekly_ex)"
    by blast
  from no three pooled one four show ?thesis
    by (simp only: list_all_iff) blast
qed

text \<open>
  The claim as the specification states it fails on the test-row condition: SKU 1 of
  the example has four training weeks and not one test row, and a dedicated model is
  trained for it.
\<close>

theorem dedicated_model_without_test_row_counterexample:
  "1 \<in> dom (trained_sku_models fit_const weekly_ex)
   \<and> filter (\<lambda>r. sku r = 1) (test_all (add_v4_features weekly_ex)) = []
   \<and> length (filter (\<lambda>r. sku r = 1) (train_all (add_v4_features weekly_ex))) = 4"
  using trained_sku_models_ex(1) unfolding add_v4_features_ex
  by (simp add: dom_def test_all_def train_all_def weekly_row_def H1_END_WEEK_def)

text \<open>
  Claim C8. The tier is \<^verbatim>\<open>High\<close> exactly when wmape is below 40 and there are at least
  15 training weeks, \<^verbatim>\<open>Medium\<close> exactly when it is not \<^verbatim>\<open>High\<close> and wmape is below 60
  with at least 10 training weeks, and \<^verbatim>\<open>Low\<close> otherwise; 20 training weeks with
  wmape 25 give \<^verbatim>\<open>High\<close>. In the table the per-SKU part produces, every record's tier
  is the tier of its own wmape and training-week count, and all records of one SKU
  carry the same wmape and the same tier.
\<close>

theorem confidence_tier_per_sku:
  "(get_confidence w n = High \<longleftrightarrow> w < 40 \<and> 15 \<le> n)
   \<and> (get_confidence w n = Medium \<longleftrightarrow> \<not> (w < 40 \<and> 15 \<le> n) \<and> w < 60 \<and> 10 \<le> n)
   \<and> (get_confidence w n = Low \<longleftrightarrow> \<not> (w < 40 \<and> 15 \<le> n) \<and> \<not> (w < 60 \<and> 10 \<le> n))
   \<and> get_confidence 25 20 = High
   \<and> (main_sku fit weekly0 = Inr sku_df \<longrightarrow>
        (\<forall>p\<in>set sku_df.
           confidence p = get_confidence (wmape p) (h1_weeks p)
           \<and> (\<forall>q\<in>set sku_df. prediction.sku q = prediction.sku p \<longrightarrow>
                 wmape q = wmape p \<and> confidence q = confidence p)))"
proof -
  have tiers: "(get_confidence w n = High \<longleftrightarrow> w < 40 \<and> 15 \<le> n)
   \<and> (get_confidence w n = Medium \<longleftrightarrow> \<not> (w < 40 \<and> 15 \<le> n) \<and> w < 60 \<and> 10 \<le> n)
   \<and> (get_confidence w n = Low \<longleftrightarrow> \<not> (w < 40 \<and> 15 \<le> n) \<and> \<not> (w < 60 \<and> 10 \<le> n))
   \<and> get_confidence 25 20 = High"
    by (simp add: get_confidence_def)
  have rows: "confidence p = get_confidence (wmape p) (h1_weeks p)
           \<and> (\<forall>q\<in>set sku_df. prediction.sku q = prediction.sku p \<longrightarrow>
                 wmape q = wmape p \<and> confidence q = confidence p)"
    if "main_sku fit weekly0 = Inr sku_df" "p \<in> set sku_df" for p
    using main_sku_routing(3,4) [OF that(1)] that(2) by metis
  from tiers rows show ?thesis by blast
qed

theorem confidence_tier_per_sku_witness:
  "get_confidence 20 3 = Low \<and> get_confidence 60 0 = Low \<and> get_confidence 25 20 = High
   \<and> main_sku fit_const weekly_ex =
     Inr [\<lparr>prediction.sku = 2, category = ''Tools'', year_week = ''W27'',
           actual = 10, predicted = 8, model_type = ''global'', h1_weeks = 3,
           wmape = 20, confidence = Low\<rparr>,
          \<lparr>prediction.sku = 3, category = ''Unknown'', year_week = ''W27'',
           actual = 5, predicted = 8, model_type = ''global'', h1_weeks = 0,
           wmape = 60, confidence = Low\<rparr>]"
proof -
  let ?sd = "[\<lparr>prediction.sku = 2, category = ''Tools'', year_week = ''W27'',
           actual = 10, predicted = 8, model_type = ''global'', h1_weeks = 3,
           wmape = 20, confidence = Low\<rparr>,
          \<lparr>prediction.sku = 3, category = ''Unknown'', year_week = ''W27'',
           actual = 5, predicted = 8, model_type = ''global'', h1_weeks = 0,
           wmape = 60, confidence = Low\<rparr>]"
  from confidence_tier_per_sku [of 20 3 fit_const weekly_ex ?sd] main_sku_ex
  have "\<forall>p\<in>set ?sd. confidence p = get_confidence (wmape p) (h1_weeks p)"
    and "get_confidence 25 20 = High"
    by blast+
  with main_sku_ex show ?thesis by simp
qed


section \<open>Properties of the accuracy metric\<close>

lemma calculate_wmape_formula:
  "0 < sum_list acts \<Longrightarrow>
   calculate_wmape acts preds
     = 100 * sum_list (map (\<lambda>(a, p). \<bar>a - p\<bar>) (zip acts preds)) / sum_list acts"
  by (simp add: calculate_wmape_def)

lemma calculate_wmape_sentinel:
  "sum_list acts = 0 \<Longrightarrow> calculate_wmape acts preds = 999"
  by (simp add: calculate_wmape_def)

lemma calculate_wmape_train_all_finite:
  "sum_list acts \<noteq> 0 \<Longrightarrow>
   calculate_wmape_train_all acts preds
     = Finite (100 * sum_list (map (\<lambda>(a, p). \<bar>a - p\<bar>) (zip acts preds)) / sum_list acts)"
  by (simp add: calculate_wmape_train_all_def np_divide_def)

lemma calculate_wmape_train_all_guarded:
  "0 < sum_list acts \<Longrightarrow>
   calculate_wmape_train_all acts preds = Finite (calculate_wmape acts preds)"
  by (simp add: calculate_wmape_train_all_def np_divide_def calculate_wmape_def)

text \<open>
  The variant of TRAIN_ALL_MODELS.py has no guard of its own: called on actual values
  0, 0 it returns infinity against the predictions 1, 2 and NaN against 0, 0. That
  script applies it to whole result frames only, whose actual values are weekly
  quantities summed from line items with a positive quantity.
\<close>

lemma calculate_wmape_train_all_zero_actuals:
  "sum_list [0, 0 :: real] = 0
   \<and> calculate_wmape_train_all [0, 0] [1, 2] = PosInf
   \<and> calculate_wmape_train_all [0, 0] [0, 0] = NaN
   \<and> calculate_wmape [0, 0] [1, 2] = 999"
  by (simp add: calculate_wmape_train_all_def np_divide_def calculate_wmape_def)

lemma add_confidence_group:
  "map actual (filter (\<lambda>q. prediction.sku q = s) (add_confidence sku_df))
     = map actual (filter (\<lambda>q. prediction.sku q = s) sku_df)"
  "map predicted (filter (\<lambda>q. prediction.sku q = s) (add_confidence sku_df))
     = map predicted (filter (\<lambda>q. prediction.sku q = s) sku_df)"
  by (simp_all add: add_confidence_def filter_map comp_def)

lemma main_sku_wmape:
  assumes "main_sku fit weekly0 = Inr sku_df" "p \<in> set sku_df"
  shows "wmape p =
           calculate_wmape
             (map actual (filter (\<lambda>q. prediction.sku q = prediction.sku p) sku_df))
             (map predicted (filter (\<lambda>q. prediction.sku q = prediction.sku p) sku_df))"
proof -
  from assms(1) obtain g where
    s: "sku_df = add_confidence
       (predict_skus (trained_sku_models fit weekly0) g
          (h1_weeks_per_sku (add_v4_features weekly0)) (test_all (add_v4_features weekly0)))"
    by (rule main_sku_Inr)
  let ?res = "predict_skus (trained_sku_models fit weekly0) g
          (h1_weeks_per_sku (add_v4_features weekly0)) (test_all (add_v4_features weekly0))"
  from assms(2) add_confidence_row [of p ?res]
  have "wmape p = sku_wmape ?res (prediction.sku p)"
    unfolding s by auto
  then show ?thesis
    unfolding s add_confidence_group by (simp only: sku_wmape_def)
qed

text \<open>
  Claim C7. The metric of TRAIN_V4_MODELS.py is 100 times the summed absolute error
  over the summed actual values when that sum is positive, and the sentinel 999 when
  the sum is zero; it is a number in every case. In the table the per-SKU part
  produces, the wmape of every record is this metric over the records of its own
  SKU, so it is 999 for a SKU whose actual values sum to zero.
\<close>

theorem wmape_per_sku_sentinel:
  "(0 < sum_list acts \<longrightarrow>
      calculate_wmape acts preds
        = 100 * sum_list (map (\<lambda>(a, p). \<bar>a - p\<bar>) (zip acts preds)) / sum_list acts)
   \<and> (sum_list acts = 0 \<longrightarrow> calculate_wmape acts preds = 999)
   \<and> (main_sku fit weekly0 = Inr sku_df \<longrightarrow>
        (\<forall>p\<in>set sku_df.
           wmape p =
             calculate_wmape
               (map actual (filter (\<lambda>q. prediction.sku q = prediction.sku p) sku_df))
               (map predicted (filter (\<lambda>q. prediction.sku q = prediction.sku p) sku_df))
           \<and> (sum_list (map actual (filter (\<lambda>q. prediction.sku q = prediction.sku p) sku_df)) = 0
                \<longrightarrow> wmape p = 999)))"
proof -
  have rows: "wmape p =
             calculate_wmape
               (map actual (filter (\<lambda>q. prediction.sku q = prediction.sku p) sku_df))
               (map predicted (filter (\<lambda>q. prediction.sku q = prediction.sku p) sku_df))
           \<and> (sum_list (map actual (filter (\<lambda>q. prediction.sku q = prediction.sku p) sku_df)) = 0
                \<longrightarrow> wmape p = 999)"
    if "main_sku fit weekly0 = Inr sku_df" "p \<in> set sku_df" for p
    using main_sku_wmape [OF that] by (simp add: calculate_wmape_sentinel)
  from rows show ?thesis
    by (simp add: calculate_wmape_formula calculate_wmape_sentinel)
qed

theorem wmape_per_sku_sentinel_witness:
  "calculate_wmape [10] [8] = 20 \<and> calculate_wmape [5] [8] = 60
   \<and> calculate_wmape [0, 0] [1, 2] = 999
   \<and> 0 < sum_list [10 :: real] \<and> sum_list [0, 0 :: real] = 0"
proof -
  let ?sd = "[\<lparr>prediction.sku = 2, category = ''Tools'', year_week = ''W27'',
           actual = 10, predicted = 8, model_type = ''global'', h1_weeks = 3,
           wmape = 20, confidence = Low\<rparr>,
          \<lparr>prediction.sku = 3, category = ''Unknown'', year_week = ''W27'',
           actual = 5, predicted = 8, model_type = ''global'', h1_weeks = 0,
           wmape = 60, confidence = Low\<rparr>]"
  from wmape_per_sku_sentinel [of "[10]" "[8]" fit_const weekly_ex ?sd] main_sku_ex
  have "\<forall>p\<in>set ?sd. wmape p =
             calculate_wmape
               (map actual (filter (\<lambda>q. prediction.sku q = prediction.sku p) ?sd))
               (map predicted (filter (\<lambda>q. prediction.sku q = prediction.sku p) ?sd))"
    by blast
  then have a: "calculate_wmape [10] [8] = 20" "calculate_wmape [5] [8] = 60"
    by simp_all
  from wmape_per_sku_sentinel [of "[0, 0]" "[1, 2]" fit_const weekly_ex ?sd]
  have b: "calculate_wmape [0, 0] [1, 2] = 999" by simp
  from a b show ?thesis by simp
qed


section \<open>Properties of the feature builder\<close>

lemma shift_nth:
  "j < length xs \<Longrightarrow> shift k xs ! j = (if k \<le> j then Some (xs ! (j - k)) else None)"
  by (simp add: shift_def)

text \<open>A lag of at least one position reads the series strictly before the position.\<close>

lemma shift_reads_past_only:
  assumes "0 < k" "j < length xs" "j < length ys" "take j xs = take j ys"
  shows "shift k xs ! j = shift k ys ! j"
proof (cases "k \<le> j")
  case True
  with assms(1) have less: "j - k < j" by simp
  have "xs ! (j - k) = take j xs ! (j - k)"
    using less by (simp only: nth_take)
  also have "\<dots> = take j ys ! (j - k)"
    by (simp only: assms(4))
  also have "\<dots> = ys ! (j - k)"
    using less by (simp only: nth_take)
  finally have "xs ! (j - k) = ys ! (j - k)" .
  with assms(2,3) True show ?thesis by (simp only: shift_nth if_True)
next
  case False
  with assms(2,3) show ?thesis by (simp only: shift_nth if_False)
qed

lemma rolling_mean_nth:
  "j < length xs \<Longrightarrow>
   rolling_mean n xs ! j = Some (mean (drop (j + 1 - n) (take (j + 1) xs)))"
  by (simp add: rolling_mean_def)

subsection \<open>The lag columns read earlier weeks only\<close>

lemma filter_take_nth:
  assumes "i < length xs" "P (xs ! i)"
  shows "filter P xs ! length (filter P (take i xs)) = xs ! i"
    and "take (length (filter P (take i xs))) (filter P xs) = filter P (take i xs)"
    and "length (filter P (take i xs)) < length (filter P xs)"
proof -
  from assms(1) have "xs = take i xs @ xs ! i # drop (Suc i) xs"
    by (rule id_take_nth_drop)
  then have "filter P xs = filter P (take i xs @ xs ! i # drop (Suc i) xs)"
    by simp
  with assms(2) have split: "filter P xs = filter P (take i xs) @ xs ! i # filter P (drop (Suc i) xs)"
    by simp
  show "filter P xs ! length (filter P (take i xs)) = xs ! i"
    by (simp only: split nth_append_length)
  show "take (length (filter P (take i xs))) (filter P xs) = filter P (take i xs)"
    by (simp only: split) simp
  show "length (filter P (take i xs)) < length (filter P xs)"
    by (simp only: split) simp
qed

lemma sorted_distinct_take:
  assumes "sorted (map key df)" "distinct (map key df)" "i < length df"
  shows "filter (\<lambda>r. key r < key (df ! i)) df = take i df"
proof -
  from assms(1,2) have strict: "sorted_wrt (<) (map key df)"
    by (simp add: strict_sorted_iff)
  have before: "key r < key (df ! i)" if "r \<in> set (take i df)" for r
  proof -
    from that obtain j where j: "j < i" "j < length df" "r = df ! j"
      by (auto simp: in_set_conv_nth)
    with strict assms(3) have "map key df ! j < map key df ! i"
      by (intro sorted_wrt_nth_less) simp_all
    with j assms(3) show ?thesis by simp
  qed
  have after: "\<not> key r < key (df ! i)" if "r \<in> set (drop i df)" for r
  proof -
    from that obtain j' where "j' < length (drop i df)" "r = drop i df ! j'"
      by (auto simp: in_set_conv_nth)
    then obtain j where j: "i + j < length df" "r = df ! (i + j)"
      by (intro that [of j']) (simp_all add: ac_simps)
    with assms(1) have "map key df ! i \<le> map key df ! (i + j)"
      by (intro sorted_nth_mono) simp_all
    with j assms(3) show ?thesis by simp
  qed
  have a: "filter (\<lambda>r. key r < key (df ! i)) (take i df) = take i df"
    by (rule filter_True) (use before in blast)
  have b: "filter (\<lambda>r. key r < key (df ! i)) (drop i df) = []"
    unfolding filter_empty_conv using after by blast
  have "filter (\<lambda>r. key r < key (df ! i)) df
      = filter (\<lambda>r. key r < key (df ! i)) (take i df @ drop i df)"
    by simp
  also have "\<dots> = take i df"
    by (simp only: filter_append a b append_Nil2)
  finally show ?thesis .
qed

lemma groupby_shift_nth:
  assumes "i < length df" "0 < k"
  shows "groupby_transform key col (shift k) df ! i =
           (let past = filter (\<lambda>r. key r = key (df ! i)) (take i df)
            in if k \<le> length past then Some (col (past ! (length past - k))) else None)"
proof -
  let ?P = "\<lambda>r. key r = key (df ! i)"
  let ?G = "filter ?P df"
  let ?past = "filter ?P (take i df)"
  let ?j = "length ?past"
  from assms(1) have pos: "?G ! ?j = df ! i" "take ?j ?G = ?past" "?j < length ?G"
    by (simp_all add: filter_take_nth)
  have "groupby_transform key col (shift k) df ! i = shift k (map col ?G) ! ?j"
    using assms(1) by (simp add: groupby_transform_def)
  also have "\<dots> = (if k \<le> ?j then Some (map col ?G ! (?j - k)) else None)"
    using pos(3) by (simp add: shift_nth)
  also have "\<dots> = (if k \<le> ?j then Some (col (?past ! (?j - k))) else None)"
  proof (cases "k \<le> ?j")
    case True
    with assms(2) have less: "?j - k < ?j" by simp
    with pos(3) have "map col ?G ! (?j - k) = col (?G ! (?j - k))" by simp
    also from less have "?G ! (?j - k) = take ?j ?G ! (?j - k)" by simp
    finally show ?thesis by (simp only: pos(2))
  next
    case False
    then show ?thesis by simp
  qed
  finally show ?thesis by (simp only: Let_def)
qed

lemma sorted_group_past:
  fixes df :: "weekly_agg list"
  assumes "sorted (map (\<lambda>r. (sku r, year_week r)) df)"
    and "distinct (map (\<lambda>r. (sku r, year_week r)) df)" and "i < length df"
  shows "filter (\<lambda>r. sku r = sku (df ! i)) (take i df)
           = filter (\<lambda>r. sku r = sku (df ! i) \<and> year_week r < year_week (df ! i)) df"
proof -
  have "filter (\<lambda>r. sku r = sku (df ! i)) (take i df)
      = filter (\<lambda>r. sku r = sku (df ! i))
          (filter (\<lambda>r. (sku r, year_week r) < (sku (df ! i), year_week (df ! i))) df)"
    using sorted_distinct_take [of "\<lambda>r. (sku r, year_week r)" df i] assms by simp
  also have "\<dots> = filter (\<lambda>r. sku r = sku (df ! i) \<and> year_week r < year_week (df ! i)) df"
    by (auto simp: less_prod_def intro: filter_cong)
  finally show ?thesis .
qed

lemma build_features_nth:
  assumes "i < length weekly"
  shows "sku (build_features weekly ! i) = sku (sort_key (\<lambda>r. (sku r, year_week r)) weekly ! i)"
    and "year_week (build_features weekly ! i)
           = year_week (sort_key (\<lambda>r. (sku r, year_week r)) weekly ! i)"
    and "lag1_quantity (build_features weekly ! i)
           = groupby_transform sku weekly_quantity (shift 1)
               (sort_key (\<lambda>r. (sku r, year_week r)) weekly) ! i"
    and "lag2_quantity (build_features weekly ! i)
           = groupby_transform sku weekly_quantity (shift 2)
               (sort_key (\<lambda>r. (sku r, year_week r)) weekly) ! i"
    and "lag4_quantity (build_features weekly ! i)
           = groupby_transform sku weekly_quantity (shift 4)
               (sort_key (\<lambda>r. (sku r, year_week r)) weekly) ! i"
    and "lag1_price (build_features weekly ! i)
           = groupby_transform sku avg_unit_price (shift 1)
               (sort_key (\<lambda>r. (sku r, year_week r)) weekly) ! i"
    and "lag2_price (build_features weekly ! i)
           = groupby_transform sku avg_unit_price (shift 2)
               (sort_key (\<lambda>r. (sku r, year_week r)) weekly) ! i"
    and "lag4_price (build_features weekly ! i)
           = groupby_transform sku avg_unit_price (shift 4)
               (sort_key (\<lambda>r. (sku r, year_week r)) weekly) ! i"
  using assms by (simp_all add: build_features_def Let_def)

text \<open>
  The value of a lag column in the feature row of a SKU and week: the entry \<open>k\<close>
  places from the end of the SKU's earlier weeks, in week order.
\<close>

lemma build_features_lag:
  assumes d: "distinct (map (\<lambda>r. (sku r, year_week r)) weekly)" and i: "i < length weekly"
    and k: "0 < k"
  shows "groupby_transform sku col (shift k) (sort_key (\<lambda>r. (sku r, year_week r)) weekly) ! i
           = (let past = sort_key (\<lambda>r. (sku r, year_week r))
                  (filter (\<lambda>r. sku r = sku (build_features weekly ! i)
                               \<and> year_week r < year_week (build_features weekly ! i)) weekly)
              in if k \<le> length past then Some (col (past ! (length past - k))) else None)"
proof -
  let ?key = "\<lambda>r::weekly_agg. (sku r, year_week r)"
  let ?df = "sort_key ?key weekly"
  have s: "sorted (map ?key ?df)" by (rule sorted_sort_key)
  have "mset (map ?key ?df) = mset (map ?key weekly)" by simp
  with d have dd: "distinct (map ?key ?df)" by (metis mset_eq_imp_distinct_iff)
  from i have il: "i < length ?df" by simp
  have past: "filter (\<lambda>r. sku r = sku (?df ! i)) (take i ?df)
      = sort_key ?key (filter (\<lambda>r. sku r = sku (?df ! i) \<and> year_week r < year_week (?df ! i)) weekly)"
    by (simp only: sorted_group_past [OF s dd il] filter_sort)
  show ?thesis
    unfolding groupby_shift_nth [OF il k] build_features_nth(1,2) [OF i] past ..
qed

text \<open>
  Two tables that hold the same earlier rows of a SKU give the row of that SKU and
  week the same six lag columns, whatever else differs between them.
\<close>

lemma lag_columns_read_past_only:
  assumes "distinct (map (\<lambda>r. (sku r, year_week r)) A)"
    and "distinct (map (\<lambda>r. (sku r, year_week r)) B)"
    and "i < length A" "j < length B"
    and "sku (build_features A ! i) = sku (build_features B ! j)"
    and "year_week (build_features A ! i) = year_week (build_features B ! j)"
    and "filter (\<lambda>r. sku r = sku (build_features A ! i)
                    \<and> year_week r < year_week (build_features A ! i)) A
         = filter (\<lambda>r. sku r = sku (build_features A ! i)
                    \<and> year_week r < year_week (build_features A ! i)) B"
  shows "lag1_quantity (build_features A ! i) = lag1_quantity (build_features B ! j)
       \<and> lag2_quantity (build_features A ! i) = lag2_quantity (build_features B ! j)
       \<and> lag4_quantity (build_features A ! i) = lag4_quantity (build_features B ! j)
       \<and> lag1_price (build_features A ! i) = lag1_price (build_features B ! j)
       \<and> lag2_price (build_features A ! i) = lag2_price (build_features B ! j)
       \<and> lag4_price (build_features A ! i) = lag4_price (build_features B ! j)"
proof -
  have same: "groupby_transform sku col (shift k) (sort_key (\<lambda>r. (sku r, year_week r)) A) ! i
      = groupby_transform sku col (shift k) (sort_key (\<lambda>r. (sku r, year_week r)) B) ! j"
    if "0 < k" for k and col :: "weekly_agg \<Rightarrow> real"
  proof -
    have eq: "filter (\<lambda>r. sku r = sku (build_features A ! i)
                    \<and> year_week r < year_week (build_features A ! i)) A
         = filter (\<lambda>r. sku r = sku (build_features B ! j)
                    \<and> year_week r < year_week (build_features B ! j)) B"
      using assms(5-7) by simp
    show ?thesis
      by (simp only: build_features_lag [OF assms(1,3) that] build_features_lag [OF assms(2,4) that]
          eq)
  qed
  show ?thesis
    unfolding build_features_nth(3-8) [OF assms(3)] build_features_nth(3-8) [OF assms(4)]
    by (simp only: same [OF zero_less_one] same [of 2] same [of 4] zero_less_numeral simp_thms)
qed

subsection \<open>The rolling average reads the current week\<close>

lemma build_features_agg_ex:
  "build_features (agg_ex q) =
     [\<lparr>sku = 1, year_week = ''2025-W01'', weekly_quantity = 10, avg_unit_price = 5,
       lag1_quantity = None, lag1_price = None, lag2_quantity = None, lag2_price = None,
       lag4_quantity = None, lag4_price = None,
       rolling_avg_4w = Some 10, price_rolling_avg_4w = Some 5\<rparr>,
      \<lparr>sku = 1, year_week = ''2025-W02'', weekly_quantity = q, avg_unit_price = 5,
       lag1_quantity = Some 10, lag1_price = Some 5, lag2_quantity = None, lag2_price = None,
       lag4_quantity = None, lag4_price = None,
       rolling_avg_4w = Some ((10 + q) / 2), price_rolling_avg_4w = Some 5\<rparr>]"
  by (simp add: build_features_def agg_ex_def groupby_transform_def rolling_mean_def mean_def
      shift_def upt_rec [of 0] upt_rec [of 1])

text \<open>
  Claim C1. The lag columns satisfy the claim, as the lemma
  \<open>lag_columns_read_past_only\<close> states; the rolling average does not. The two
  example tables agree on every row before week 2025-W02 and differ in the quantity
  of that week alone. The lag columns built for the row of 2025-W02 are the same for
  both, but its \<^verbatim>\<open>rolling_avg_4w\<close> is 15 for one table and 25 for the other: the
  window of lines 568-570 ends at the row's own week.
\<close>

theorem rolling_avg_4w_reads_own_week:
  "filter (\<lambda>r. year_week r < ''2025-W02'') (agg_ex 20)
     = filter (\<lambda>r. year_week r < ''2025-W02'') (agg_ex 40)
   \<and> map year_week (build_features (agg_ex 20)) = [''2025-W01'', ''2025-W02'']
   \<and> map year_week (build_features (agg_ex 40)) = [''2025-W01'', ''2025-W02'']
   \<and> map lag1_quantity (build_features (agg_ex 20)) = [None, Some 10]
   \<and> map lag1_quantity (build_features (agg_ex 40)) = [None, Some 10]
   \<and> map rolling_avg_4w (build_features (agg_ex 20)) = [Some 10, Some 15]
   \<and> map rolling_avg_4w (build_features (agg_ex 40)) = [Some 10, Some 25]"
  by (simp add: build_features_agg_ex) (simp add: agg_ex_def)

end
